theory Spec2Isabelle
  imports Complex_Main
begin

section \<open>Adaptive batch sizing\<close>

text \<open>
  \<^verbatim>\<open>calculateOptimalBatchSize(successRate, currentThreads, maxThreads)\<close> of App.js.
  The success rate is a quotient of two small counts; it is modelled as a rational number
  (the comparisons with 0.75 and 0.35 decide the same way on the quotients the scheduler
  produces). The thread counts are JavaScript numbers holding integers.
\<close>

definition calculateOptimalBatchSize :: "rat \<Rightarrow> int \<Rightarrow> int \<Rightarrow> int" where
  "calculateOptimalBatchSize successRate currentThreads maxThreads =
     (if successRate > 0.75 then min (currentThreads + 1) maxThreads
      else if successRate < 0.35 then max (currentThreads - 1) 2
      else currentThreads)"

section \<open>Captcha turn queue\<close>

text \<open>
  The globals of the backend that the tasks and the WebSocket handler share:
  \<^verbatim>\<open>captchaQueue\<close>, \<^verbatim>\<open>activeCaptchaThreadId\<close>, \<^verbatim>\<open>skipCaptchaFlags\<close> and
  \<^verbatim>\<open>captchaResolvers\<close>. A thread identity is the positive number
  \<^verbatim>\<open>totalAttempts\<close> of its dispatch. A queue entry \<^verbatim>\<open>{threadId, resolve}\<close> is
  represented by its thread identity; calling its \<^verbatim>\<open>resolve\<close> appends the identity to
  \<open>acquiredLog\<close> (the order of the "acquired lock" log lines), and an effective release
  appends to \<open>releasedLog\<close> (the "released lock" log lines). The skip flags are a map whose
  only stored value is \<^verbatim>\<open>true\<close>, hence a set of keys.

  Every call of \<^verbatim>\<open>waitForCaptchaSolution\<close> creates one promise; promises are numbered
  in creation order (\<open>promiseCount\<close>). \<^verbatim>\<open>captchaResolvers\<close> is a JavaScript Map, kept
  in insertion order, from a thread identity to the promise its resolver settles.
  \<open>timers\<close> holds the pending \<^verbatim>\<open>setTimeout\<close> of each promise with the thread identity
  its callback captured, and \<open>settledLog\<close> lists the calls of a promise's
  \<^verbatim>\<open>resolve\<close> with the value passed.
\<close>

datatype message_type = Skip_captcha | Click | Captcha_click | Other_type

record ws_data =
  msgType :: message_type
  msgThreadId :: "nat option"
  clickX :: int
  clickY :: int
  clickPosition :: nat
  skippedField :: bool

datatype solution = Timeout_null | Skipped_reply | Click_reply ws_data

record backend =
  captchaQueue :: "nat list"
  activeCaptchaThreadId :: "nat option"
  skipCaptchaFlags :: "nat set"
  acquiredLog :: "nat list"
  releasedLog :: "nat list"
  captchaResolvers :: "(nat \<times> nat) list"
  timers :: "(nat \<times> nat) list"
  settledLog :: "(nat \<times> solution) list"
  promiseCount :: nat

definition backendInit :: backend where
  "backendInit = \<lparr>captchaQueue = [], activeCaptchaThreadId = None, skipCaptchaFlags = {},
     acquiredLog = [], releasedLog = [], captchaResolvers = [], timers = [], settledLog = [],
     promiseCount = 0\<rparr>"

definition processCaptchaQueue :: "backend \<Rightarrow> backend" where
  "processCaptchaQueue s =
     (case (activeCaptchaThreadId s, captchaQueue s) of
        (None, next # rest) \<Rightarrow>
          s\<lparr>captchaQueue := rest, activeCaptchaThreadId := Some next,
            acquiredLog := acquiredLog s @ [next]\<rparr>
      | _ \<Rightarrow> s)"

definition waitForCaptchaTurn :: "nat \<Rightarrow> backend \<Rightarrow> backend" where
  "waitForCaptchaTurn threadId s =
     processCaptchaQueue (s\<lparr>captchaQueue := captchaQueue s @ [threadId]\<rparr>)"

definition releaseCaptchaLock :: "nat \<Rightarrow> backend \<Rightarrow> backend" where
  "releaseCaptchaLock threadId s =
     (if activeCaptchaThreadId s = Some threadId
      then processCaptchaQueue
             (s\<lparr>activeCaptchaThreadId := None,
                skipCaptchaFlags := skipCaptchaFlags s - {threadId},
                releasedLog := releasedLog s @ [threadId]\<rparr>)
      else s)"

datatype arbiter_call = Enqueue nat | Release nat

fun arbiterStep :: "backend \<Rightarrow> arbiter_call \<Rightarrow> backend" where
  "arbiterStep s (Enqueue t) = waitForCaptchaTurn t s"
| "arbiterStep s (Release t) = releaseCaptchaLock t s"

definition arbiterRun :: "arbiter_call list \<Rightarrow> backend" where
  "arbiterRun calls = foldl arbiterStep backendInit calls"

fun arrivals :: "arbiter_call list \<Rightarrow> nat list" where
  "arrivals [] = []"
| "arrivals (Enqueue t # cs) = t # arrivals cs"
| "arrivals (Release t # cs) = arrivals cs"

definition holderList :: "backend \<Rightarrow> nat list" where
  "holderList s = (case activeCaptchaThreadId s of None \<Rightarrow> [] | Some t \<Rightarrow> [t])"

definition arbiterInv :: "arbiter_call list \<Rightarrow> backend \<Rightarrow> bool" where
  "arbiterInv calls s \<longleftrightarrow>
     acquiredLog s @ captchaQueue s = arrivals calls \<and>
     acquiredLog s = releasedLog s @ holderList s \<and>
     (activeCaptchaThreadId s = None \<longrightarrow> captchaQueue s = [])"

section \<open>Answer registry\<close>

text \<open>
  \<^verbatim>\<open>waitForCaptchaSolution\<close> and the \<^verbatim>\<open>message\<close> handler of the WebSocket server.
  \<open>mapSet\<close>, \<open>mapGet\<close> and \<open>mapDelete\<close> are the Map operations \<^verbatim>\<open>set\<close> (an
  existing key keeps its place), \<^verbatim>\<open>get\<close> and \<^verbatim>\<open>delete\<close>. A message whose
  \<^verbatim>\<open>threadId\<close> is absent has \<open>msgThreadId = None\<close>; JavaScript treats an absent
  identity and the number 0 as false. A skip without identity stores its flag under a key
  that no thread reads, and is modelled as changing nothing.
\<close>

definition mapGet :: "(nat \<times> nat) list \<Rightarrow> nat \<Rightarrow> nat option" where
  "mapGet m k = map_of m k"

definition mapDelete :: "nat \<Rightarrow> (nat \<times> nat) list \<Rightarrow> (nat \<times> nat) list" where
  "mapDelete k m = filter (\<lambda>e. fst e \<noteq> k) m"

definition mapSet :: "nat \<Rightarrow> nat \<Rightarrow> (nat \<times> nat) list \<Rightarrow> (nat \<times> nat) list" where
  "mapSet k v m =
     (if k \<in> fst ` set m then map (\<lambda>e. if fst e = k then (k, v) else e) m else m @ [(k, v)])"

definition truthy :: "nat option \<Rightarrow> bool" where
  "truthy t = (case t of None \<Rightarrow> False | Some n \<Rightarrow> n \<noteq> 0)"

definition waitForCaptchaSolution :: "nat \<Rightarrow> backend \<Rightarrow> nat \<times> backend" where
  "waitForCaptchaSolution threadId s =
     (let promise = promiseCount s
      in (promise,
          s\<lparr>promiseCount := promise + 1,
            timers := timers s @ [(promise, threadId)],
            captchaResolvers := mapSet threadId promise (captchaResolvers s)\<rparr>))"

text \<open>The timeout callback: \<^verbatim>\<open>captchaResolvers.delete(threadId); resolve(null)\<close>.\<close>

definition timeoutFires :: "nat \<Rightarrow> backend \<Rightarrow> backend" where
  "timeoutFires promise s =
     (case mapGet (timers s) promise of
        None \<Rightarrow> s
      | Some threadId \<Rightarrow>
          s\<lparr>timers := mapDelete promise (timers s),
            captchaResolvers := mapDelete threadId (captchaResolvers s),
            settledLog := settledLog s @ [(promise, Timeout_null)]\<rparr>)"

text \<open>
  \<^verbatim>\<open>resolver.resolve(v)\<close> clears the timeout and resolves the promise; the handler
  deletes the registry entry right after.
\<close>

definition resolveAndDelete :: "nat \<Rightarrow> nat \<Rightarrow> solution \<Rightarrow> backend \<Rightarrow> backend" where
  "resolveAndDelete threadId promise v s =
     s\<lparr>timers := mapDelete promise (timers s),
       settledLog := settledLog s @ [(promise, v)],
       captchaResolvers := mapDelete threadId (captchaResolvers s)\<rparr>"

definition onMessage :: "ws_data \<Rightarrow> backend \<Rightarrow> backend" where
  "onMessage data s =
     (case msgType data of
        Skip_captcha \<Rightarrow>
          (case msgThreadId data of
             None \<Rightarrow> s
           | Some threadId \<Rightarrow>
               (let s1 = s\<lparr>skipCaptchaFlags := insert threadId (skipCaptchaFlags s)\<rparr>
                in case mapGet (captchaResolvers s1) threadId of
                     Some promise \<Rightarrow> resolveAndDelete threadId promise Skipped_reply s1
                   | None \<Rightarrow> s1))
      | Other_type \<Rightarrow> s
      | _ \<Rightarrow>
          (let threadId =
                 (if \<not> truthy (msgThreadId data) \<and> length (captchaResolvers s) > 0
                  then Some (fst (hd (captchaResolvers s))) else msgThreadId data)
           in if truthy threadId
              then (case mapGet (captchaResolvers s) (the threadId) of
                      Some promise \<Rightarrow> resolveAndDelete (the threadId) promise (Click_reply data) s
                    | None \<Rightarrow> s)
              else s))"

datatype relay_event = Wait nat | Message ws_data | Timeout nat

fun relayStep :: "backend \<Rightarrow> relay_event \<Rightarrow> backend" where
  "relayStep s (Wait threadId) = snd (waitForCaptchaSolution threadId s)"
| "relayStep s (Message data) = onMessage data s"
| "relayStep s (Timeout promise) = timeoutFires promise s"

definition relayRun :: "relay_event list \<Rightarrow> backend" where
  "relayRun events = foldl relayStep backendInit events"

definition relayInv :: "backend \<Rightarrow> bool" where
  "relayInv s \<longleftrightarrow>
     distinct (map fst (captchaResolvers s)) \<and>
     distinct (map fst (timers s)) \<and>
     (\<forall>e \<in> set (captchaResolvers s). (snd e, fst e) \<in> set (timers s)) \<and>
     fst ` set (timers s) \<inter> fst ` set (settledLog s) = {} \<and>
     distinct (map fst (settledLog s)) \<and>
     (\<forall>k \<in> fst ` set (timers s) \<union> fst ` set (settledLog s). k < promiseCount s)"

section \<open>Browser context pool\<close>

text \<open>
  \<^verbatim>\<open>class BrowserContextPool\<close>. A browser context is an object compared by identity; it
  is represented by a number. \<^verbatim>\<open>this.pool\<close> is an array used as a stack (push and pop
  at the end), \<^verbatim>\<open>this.inUse\<close> a JavaScript Set, kept as a duplicate-free list in
  insertion order. \<open>closedLog\<close> records the contexts on which \<^verbatim>\<open>close()\<close> was called.

  \<^verbatim>\<open>getContext\<close> awaits only the creation of a context, after which it touches
  \<^verbatim>\<open>inUse\<close> alone, so it is one step; what \<^verbatim>\<open>browser.createBrowserContext()\<close>
  yields is a parameter (\<open>None\<close> when it throws). \<^verbatim>\<open>releaseContext\<close> awaits
  \<^verbatim>\<open>context.pages()\<close> and the clearing of the pages between its test of
  \<^verbatim>\<open>this.pool.length\<close> and its push, and other calls run meanwhile. It is therefore two
  steps: \<open>releaseBegin\<close> up to the await, which leaves the context in \<open>sanitising\<close>
  when the test succeeds, and \<open>releaseEnd\<close> after it, with the parameter telling whether
  \<^verbatim>\<open>context.pages()\<close> succeeded. \<open>releaseContext\<close> is a release that nothing
  interrupts.
\<close>

record context_pool =
  pool :: "nat list"
  maxSize :: nat
  inUse :: "nat list"
  sanitising :: "nat list"
  closedLog :: "nat list"

definition newBrowserContextPool :: "nat \<Rightarrow> context_pool" where
  "newBrowserContextPool n =
     \<lparr>pool = [], maxSize = n, inUse = [], sanitising = [], closedLog = []\<rparr>"

definition contextPool :: context_pool where
  "contextPool = newBrowserContextPool 6"

definition setAdd :: "nat \<Rightarrow> nat list \<Rightarrow> nat list" where
  "setAdd x xs = (if x \<in> set xs then xs else xs @ [x])"

definition setDelete :: "nat \<Rightarrow> nat list \<Rightarrow> nat list" where
  "setDelete x xs = removeAll x xs"

definition getContext :: "nat option \<Rightarrow> context_pool \<Rightarrow> nat option \<times> context_pool" where
  "getContext created s =
     (if length (pool s) > 0
      then (let context = last (pool s)
            in (Some context,
                s\<lparr>pool := butlast (pool s), inUse := setAdd context (inUse s)\<rparr>))
      else (case created of
              Some context \<Rightarrow> (Some context, s\<lparr>inUse := setAdd context (inUse s)\<rparr>)
            | None \<Rightarrow> (None, s)))"

definition releaseBegin :: "nat \<Rightarrow> context_pool \<Rightarrow> context_pool" where
  "releaseBegin context s =
     (let s1 = s\<lparr>inUse := setDelete context (inUse s)\<rparr>
      in if length (pool s1) < maxSize s1
         then s1\<lparr>sanitising := sanitising s1 @ [context]\<rparr>
         else s1\<lparr>closedLog := closedLog s1 @ [context]\<rparr>)"

definition releaseEnd :: "nat \<Rightarrow> bool \<Rightarrow> context_pool \<Rightarrow> context_pool" where
  "releaseEnd context pagesOk s =
     (if context \<in> set (sanitising s)
      then (let s1 = s\<lparr>sanitising := remove1 context (sanitising s)\<rparr>
            in if pagesOk then s1\<lparr>pool := pool s1 @ [context]\<rparr>
               else s1\<lparr>closedLog := closedLog s1 @ [context]\<rparr>)
      else s)"

definition releaseContext :: "nat \<Rightarrow> bool \<Rightarrow> context_pool \<Rightarrow> context_pool" where
  "releaseContext context pagesOk s = releaseEnd context pagesOk (releaseBegin context s)"

datatype pool_call = Acquire "nat option" | Release_begin nat | Release_end nat bool

fun poolStep :: "context_pool \<Rightarrow> pool_call \<Rightarrow> context_pool" where
  "poolStep s (Acquire created) = snd (getContext created s)"
| "poolStep s (Release_begin context) = releaseBegin context s"
| "poolStep s (Release_end context pagesOk) = releaseEnd context pagesOk s"

definition poolRun :: "pool_call list \<Rightarrow> context_pool" where
  "poolRun calls = foldl poolStep contextPool calls"







section \<open>Email queue\<close>

text \<open>
  \<^verbatim>\<open>emailQueue\<close>, \<^verbatim>\<open>maintainEmailQueue\<close> and \<^verbatim>\<open>getEmailFromQueue\<close>. The queue
  holds promises of \<^verbatim>\<open>generateEmailInternal\<close>; a promise is represented by the index of
  its call in \<open>fetchLog\<close>, which records each call with its argument. \<open>inFlight\<close> lists
  the calls that have not completed yet, \<open>takenLog\<close> the promises handed to callers.
  Neither function awaits before it has finished with the queue, so each runs as one step.
\<close>

datatype fetch_source = Queue_source | Thread_source nat

record prefetch =
  emailQueue :: "nat list"
  fetchLog :: "fetch_source list"
  inFlight :: "nat list"
  takenLog :: "nat list"

definition EMAIL_QUEUE_SIZE :: nat where
  "EMAIL_QUEUE_SIZE = 10"

definition prefetchInit :: prefetch where
  "prefetchInit = \<lparr>emailQueue = [], fetchLog = [], inFlight = [], takenLog = []\<rparr>"

definition generateEmailInternal :: "fetch_source \<Rightarrow> prefetch \<Rightarrow> nat \<times> prefetch" where
  "generateEmailInternal source s =
     (length (fetchLog s),
      s\<lparr>fetchLog := fetchLog s @ [source], inFlight := inFlight s @ [length (fetchLog s)]\<rparr>)"

function maintainEmailQueue :: "prefetch \<Rightarrow> prefetch" where
  "maintainEmailQueue s =
     (if length (emailQueue s) < EMAIL_QUEUE_SIZE
      then (let (emailPromise, s1) = generateEmailInternal Queue_source s
            in maintainEmailQueue (s1\<lparr>emailQueue := emailQueue s1 @ [emailPromise]\<rparr>))
      else s)"
  by pat_completeness auto
termination
  by (relation "measure (\<lambda>s. EMAIL_QUEUE_SIZE - length (emailQueue s))")
     (auto simp: generateEmailInternal_def)

text \<open>The expression \<^verbatim>\<open>emailQueue.shift() || generateEmailInternal(threadId)\<close>.\<close>

definition shiftOrFetch :: "nat \<Rightarrow> prefetch \<Rightarrow> nat \<times> prefetch" where
  "shiftOrFetch threadId s =
     (case emailQueue s of
        emailPromise # rest \<Rightarrow> (emailPromise, s\<lparr>emailQueue := rest\<rparr>)
      | [] \<Rightarrow> generateEmailInternal (Thread_source threadId) s)"

definition getEmailFromQueue :: "nat \<Rightarrow> prefetch \<Rightarrow> nat \<times> prefetch" where
  "getEmailFromQueue threadId s =
     (let (emailPromise, s1) = shiftOrFetch threadId (maintainEmailQueue s)
      in (emailPromise, s1\<lparr>takenLog := takenLog s1 @ [emailPromise]\<rparr>))"

definition fetchCompletes :: "nat \<Rightarrow> prefetch \<Rightarrow> prefetch" where
  "fetchCompletes emailPromise s = s\<lparr>inFlight := removeAll emailPromise (inFlight s)\<rparr>"

datatype prefetch_event = Maintain | Take nat | Completes nat

fun prefetchStep :: "prefetch \<Rightarrow> prefetch_event \<Rightarrow> prefetch" where
  "prefetchStep s Maintain = maintainEmailQueue s"
| "prefetchStep s (Take threadId) = snd (getEmailFromQueue threadId s)"
| "prefetchStep s (Completes emailPromise) = fetchCompletes emailPromise s"

definition prefetchRun :: "prefetch_event list \<Rightarrow> prefetch" where
  "prefetchRun events = foldl prefetchStep prefetchInit events"

definition prefetchInv :: "prefetch \<Rightarrow> bool" where
  "prefetchInv s \<longleftrightarrow>
     length (emailQueue s) \<le> EMAIL_QUEUE_SIZE \<and>
     takenLog s @ emailQueue s = [0..<length (fetchLog s)]"

section \<open>Frontend captcha queue\<close>

text \<open>
  The React state \<^verbatim>\<open>captchaQueue\<close>, \<^verbatim>\<open>currentCaptcha\<close> and the ref
  \<^verbatim>\<open>currentCaptchaRef\<close> of \<^verbatim>\<open>AccountGeneratorApp\<close>. The state of the frontend queue
  is named \<open>pendingCaptchas\<close> here, the backend's global of the same name being modelled
  above. \<open>pendingCaptchas\<close> and \<open>currentCaptcha\<close> are the state with every update
  applied in the order of the calls (a functional update reads the state that the calls
  before it have produced). The effects and the two handlers are closures of a render:
  they read the \<^verbatim>\<open>captchaQueue\<close> and \<^verbatim>\<open>currentCaptcha\<close> that this render saw, which
  are \<open>renderedQueue\<close> and \<open>renderedCaptcha\<close>; \<open>renderedCaptcha\<close> is the challenge
  on display. The events are the arrival of a \<^verbatim>\<open>captcha\<close> message, a render, the
  effect that copies \<^verbatim>\<open>currentCaptcha\<close> into the ref, the effect that takes the head
  of the queue, and the two handlers (select, skip) that clear the challenge. An effect may
  run at any time after its render, so that a message can arrive in between.
\<close>

record captcha_item =
  itemImage :: string
  itemThreadId :: nat
  itemTimestamp :: nat

record frontend =
  pendingCaptchas :: "captcha_item list"
  currentCaptcha :: "captcha_item option"
  currentCaptchaRef :: "captcha_item option"
  renderedQueue :: "captcha_item list"
  renderedCaptcha :: "captcha_item option"

definition frontendInit :: frontend where
  "frontendInit = \<lparr>pendingCaptchas = [], currentCaptcha = None, currentCaptchaRef = None,
     renderedQueue = [], renderedCaptcha = None\<rparr>"

definition onCaptchaMessage :: "captcha_item \<Rightarrow> frontend \<Rightarrow> frontend" where
  "onCaptchaMessage captchaItem u =
     (case currentCaptchaRef u of
        Some activeCaptcha \<Rightarrow>
          if itemThreadId activeCaptcha = itemThreadId captchaItem
          then u\<lparr>currentCaptcha := Some captchaItem\<rparr>
          else u\<lparr>pendingCaptchas :=
                 filter (\<lambda>c. itemThreadId c \<noteq> itemThreadId captchaItem) (pendingCaptchas u)
                 @ [captchaItem]\<rparr>
      | None \<Rightarrow>
          u\<lparr>pendingCaptchas :=
              filter (\<lambda>c. itemThreadId c \<noteq> itemThreadId captchaItem) (pendingCaptchas u)
              @ [captchaItem]\<rparr>)"

definition render :: "frontend \<Rightarrow> frontend" where
  "render u = u\<lparr>renderedQueue := pendingCaptchas u, renderedCaptcha := currentCaptcha u\<rparr>"

definition syncRefEffect :: "frontend \<Rightarrow> frontend" where
  "syncRefEffect u = u\<lparr>currentCaptchaRef := renderedCaptcha u\<rparr>"

text \<open>
  The effect writes back \<^verbatim>\<open>rest\<close>, the tail of the queue that its render saw, with
  \<^verbatim>\<open>setCaptchaQueue(rest)\<close>, whatever has been appended since.
\<close>

definition processQueueEffect :: "frontend \<Rightarrow> frontend" where
  "processQueueEffect u =
     (case (renderedCaptcha u, renderedQueue u) of
        (None, next # rest) \<Rightarrow> u\<lparr>currentCaptcha := Some next, pendingCaptchas := rest\<rparr>
      | _ \<Rightarrow> u)"

text \<open>
  \<^verbatim>\<open>handleCaptchaSelect\<close> and \<^verbatim>\<open>handleSkipCaptcha\<close> change the state in the same
  way: when the render shows a challenge and the socket is open, the message is sent and
  the challenge is cleared.
\<close>

definition handleCaptchaAnswer :: "bool \<Rightarrow> frontend \<Rightarrow> frontend" where
  "handleCaptchaAnswer socketOpen u =
     (if renderedCaptcha u = None then u
      else if socketOpen then u\<lparr>currentCaptcha := None\<rparr> else u)"

datatype frontend_event =
  CaptchaArrives captcha_item | Render | SyncRef | ProcessQueue | AnswerOrSkip bool

fun frontendStep :: "frontend \<Rightarrow> frontend_event \<Rightarrow> frontend" where
  "frontendStep u (CaptchaArrives c) = onCaptchaMessage c u"
| "frontendStep u Render = render u"
| "frontendStep u SyncRef = syncRefEffect u"
| "frontendStep u ProcessQueue = processQueueEffect u"
| "frontendStep u (AnswerOrSkip socketOpen) = handleCaptchaAnswer socketOpen u"

definition frontendRun :: "frontend_event list \<Rightarrow> frontend" where
  "frontendRun events = foldl frontendStep frontendInit events"

definition queuedFor :: "nat \<Rightarrow> frontend \<Rightarrow> captcha_item list" where
  "queuedFor t u = filter (\<lambda>c. itemThreadId c = t) (pendingCaptchas u)"

definition frontendInv :: "frontend \<Rightarrow> bool" where
  "frontendInv u \<longleftrightarrow>
     distinct (map itemThreadId (pendingCaptchas u)) \<and>
     distinct (map itemThreadId (renderedQueue u))"

section \<open>Solving the captcha\<close>

text \<open>
  \<^verbatim>\<open>solveCaptchaManually(page, threadId)\<close>. Everything the function learns from the page,
  the solver and the WebSocket is a field of \<open>page_env\<close>. A probe that is made once per
  round is indexed by the round (from 1); a probe made inside the click loop is indexed by
  the round and by the value of \<^verbatim>\<open>clickAttempts\<close> at the start of the iteration. The
  answer \<open>None\<close> of a probe of type \<open>bool option\<close> means that the awaited call throws.
  \<^verbatim>\<open>takeCaptchaScreenshot\<close> and \<^verbatim>\<open>solveWithGemini\<close> catch their own errors and return
  null, which is \<open>None\<close> for them. \<open>inbox\<close> lists the WebSocket messages that the server
  handles while the iteration obtains its candidate answer (during the solver call or the
  wait for the manual answer), \<open>clickInbox\<close> those it handles while the click is
  processed.
\<close>

datatype solve_result = Solved | Unsolved | Skipped_result

datatype captcha_method =
  Iframe_removed | Iframe_hidden | Success_message | Countdown_detected | Zero_dimensions

datatype captcha_status = Status_solved captcha_method | Status_new_captcha

record page_env =
  useAiSolver :: bool
  iframeAppears :: bool
  earlySuccess :: "nat \<Rightarrow> bool option"
  iframeHandle :: "nat \<Rightarrow> bool option"
  isVisible :: "nat \<Rightarrow> bool option"
  scrollIntoViewOk :: "nat \<Rightarrow> bool"
  contentFrame :: "nat \<Rightarrow> bool option"
  firstScreenshot :: "nat \<Rightarrow> nat option"
  inbox :: "nat \<Rightarrow> nat \<Rightarrow> ws_data list"
  geminiAnswer :: "nat \<Rightarrow> nat \<Rightarrow> int option"
  clickInbox :: "nat \<Rightarrow> nat \<Rightarrow> ws_data list"
  clickOk :: "nat \<Rightarrow> nat \<Rightarrow> bool"
  quickSuccessCheck :: "nat \<Rightarrow> nat \<Rightarrow> bool option"
  captchaStatus :: "nat \<Rightarrow> nat \<Rightarrow> captcha_status option"
  captchaStillPresent :: "nat \<Rightarrow> nat \<Rightarrow> bool option"
  currentIframe :: "nat \<Rightarrow> nat \<Rightarrow> bool option"
  currentFrame :: "nat \<Rightarrow> nat \<Rightarrow> bool option"
  newScreenshot :: "nat \<Rightarrow> nat \<Rightarrow> nat option"
  successCheck :: "nat \<Rightarrow> bool option"
  finalCheck :: "nat \<Rightarrow> bool option"
  completionCheck :: "nat \<Rightarrow> bool option"
  finalSuccess :: "bool option"

definition maxCaptchaRounds :: nat where
  "maxCaptchaRounds = 2"

definition maxClickAttempts :: "page_env \<Rightarrow> nat" where
  "maxClickAttempts E = (if useAiSolver E then 3 else 2)"

text \<open>\<^verbatim>\<open>gridCoordinates\<close>, for the positions 1 to 6.\<close>

definition gridCoordinates :: "int \<Rightarrow> int \<times> int" where
  "gridCoordinates position =
     (if position = 1 then (60, 190) else if position = 2 then (180, 190)
      else if position = 3 then (300, 190) else if position = 4 then (60, 290)
      else if position = 5 then (180, 290) else (300, 290))"

text \<open>
  \<^verbatim>\<open>solveWithGemini\<close>: the parsed reply counts when it lies between 1 and 6 (\<open>None\<close> is
  a reply that does not parse, or an error of the call).
\<close>

definition solveWithGemini :: "page_env \<Rightarrow> int option \<Rightarrow> int option" where
  "solveWithGemini E reply =
     (if \<not> useAiSolver E then None
      else case reply of
             Some position \<Rightarrow> if position \<ge> 1 \<and> position \<le> 6 then Some position else None
           | None \<Rightarrow> None)"

definition deliver :: "ws_data list \<Rightarrow> backend \<Rightarrow> backend" where
  "deliver messages s = foldl (\<lambda>s' m. onMessage m s') s messages"

text \<open>
  The value with which the handling of one message resolved the promise, if it did: the
  handler appends at most one entry to \<open>settledLog\<close>.
\<close>

definition settledBy :: "nat \<Rightarrow> backend \<Rightarrow> backend \<Rightarrow> solution option" where
  "settledBy promise s s' =
     (if length (settledLog s') > length (settledLog s) \<and>
         fst (last (settledLog s')) = promise
      then Some (snd (last (settledLog s'))) else None)"

text \<open>
  The wait on the promise of \<^verbatim>\<open>waitForCaptchaSolution\<close>: the messages are handled in
  order until one resolves the promise; when none does, the timeout fires. Messages that
  follow the resolving one are handled before the task looks at the shared state again.
\<close>

fun awaitSolution :: "nat \<Rightarrow> ws_data list \<Rightarrow> backend \<Rightarrow> solution \<times> backend" where
  "awaitSolution promise [] s = (Timeout_null, timeoutFires promise s)"
| "awaitSolution promise (m # ms) s =
     (case settledBy promise s (onMessage m s) of
        Some v \<Rightarrow> (v, deliver ms (onMessage m s))
      | None \<Rightarrow> awaitSolution promise ms (onMessage m s))"

datatype candidate = Candidate int int | No_candidate | Candidate_break | Candidate_skipped

definition obtainCandidate ::
  "page_env \<Rightarrow> nat \<Rightarrow> nat \<Rightarrow> nat \<Rightarrow> nat option \<Rightarrow> backend \<Rightarrow> candidate \<times> backend" where
  "obtainCandidate E threadId rnd a screenshot s =
     (if useAiSolver E \<and> screenshot \<noteq> None
      then (case solveWithGemini E (geminiAnswer E rnd a) of
              Some aiPosition \<Rightarrow>
                (Candidate (fst (gridCoordinates aiPosition)) (snd (gridCoordinates aiPosition)),
                 deliver (inbox E rnd a) s)
            | None \<Rightarrow> (No_candidate, deliver (inbox E rnd a) s))
      else if \<not> useAiSolver E
      then (let (promise, s1) = waitForCaptchaSolution threadId s;
                (manualSolution, s2) = awaitSolution promise (inbox E rnd a) s1
            in case manualSolution of
                 Timeout_null \<Rightarrow> (Candidate_break, s2)
               | Skipped_reply \<Rightarrow> (Candidate_skipped, s2)
               | Click_reply d \<Rightarrow>
                   if skippedField d then (Candidate_skipped, s2)
                   else (Candidate (clickX d) (clickY d), s2))
      else (Candidate_break, s))"

text \<open>
  The new screenshot after a failed solver call, taken when attempts remain; \<open>None\<close>
  when a call throws (nothing catches it before the handler of the whole function).
\<close>

definition retakeAfterAiFailure ::
  "page_env \<Rightarrow> nat \<Rightarrow> nat \<Rightarrow> nat option \<Rightarrow> (nat option) option" where
  "retakeAfterAiFailure E rnd a screenshot =
     (if a + 1 < maxClickAttempts E
      then (case currentIframe E rnd a of
              None \<Rightarrow> None
            | Some False \<Rightarrow> Some screenshot
            | Some True \<Rightarrow>
                (case currentFrame E rnd a of
                   None \<Rightarrow> None
                 | Some False \<Rightarrow> Some screenshot
                 | Some True \<Rightarrow>
                     (case newScreenshot E rnd a of
                        Some newShot \<Rightarrow> Some (Some newShot)
                      | None \<Rightarrow> Some screenshot)))
      else Some screenshot)"

text \<open>
  The \<^verbatim>\<open>try\<close> block that clicks and inspects the page. \<open>Try_caught\<close> stands for an
  exception, which the \<^verbatim>\<open>catch\<close> of the block logs before the loop goes on.
\<close>

datatype try_exit = Try_return solve_result | Try_round_solved | Try_continue "nat option" | Try_caught

definition tryClick :: "page_env \<Rightarrow> nat \<Rightarrow> nat \<Rightarrow> nat option \<Rightarrow> try_exit" where
  "tryClick E rnd a screenshot =
     (if \<not> clickOk E rnd a then Try_caught
      else case quickSuccessCheck E rnd a of
        None \<Rightarrow> Try_caught
      | Some True \<Rightarrow> Try_return Solved
      | Some False \<Rightarrow>
     (case captchaStatus E rnd a of
        None \<Rightarrow> Try_caught
      | Some (Status_solved method) \<Rightarrow>
          if method = Success_message \<or> method = Countdown_detected then Try_return Solved
          else Try_round_solved
      | Some Status_new_captcha \<Rightarrow>
          if a + 1 < maxClickAttempts E
          then (case captchaStillPresent E rnd a of
                  None \<Rightarrow> Try_caught
                | Some False \<Rightarrow> Try_return Solved
                | Some True \<Rightarrow>
               (case currentIframe E rnd a of
                  None \<Rightarrow> Try_caught
                | Some False \<Rightarrow> Try_return Solved
                | Some True \<Rightarrow>
               (case currentFrame E rnd a of
                  None \<Rightarrow> Try_caught
                | Some False \<Rightarrow> Try_continue screenshot
                | Some True \<Rightarrow>
               (case newScreenshot E rnd a of
                  Some newShot \<Rightarrow> Try_continue (Some newShot)
                | None \<Rightarrow> Try_return Solved))))
          else Try_continue screenshot))"

text \<open>
  The \<^verbatim>\<open>while (!roundSolved && clickAttempts < maxClickAttempts)\<close> loop. \<open>attempts\<close>
  counts the increments of \<^verbatim>\<open>clickAttempts\<close> over all rounds, \<open>submitted\<close> the clicks
  sent to the captcha frame.
\<close>

record loop_state =
  clickAttempts :: nat
  screenshot :: "nat option"
  attempts :: nat
  submitted :: nat
  shared :: backend

datatype loop_exit = Loop_return solve_result | Loop_done bool | Loop_thrown

function clickLoop :: "page_env \<Rightarrow> nat \<Rightarrow> nat \<Rightarrow> loop_state \<Rightarrow> loop_exit \<times> loop_state" where
  "clickLoop E threadId rnd l =
     (if clickAttempts l < maxClickAttempts E
      then
        (if threadId \<in> skipCaptchaFlags (shared l)
         then (Loop_return Skipped_result,
               l\<lparr>shared := (shared l)\<lparr>skipCaptchaFlags := skipCaptchaFlags (shared l) - {threadId}\<rparr>\<rparr>)
         else
           (case obtainCandidate E threadId rnd (clickAttempts l) (screenshot l) (shared l) of
              (Candidate_break, s1) \<Rightarrow> (Loop_done False, l\<lparr>shared := s1\<rparr>)
            | (Candidate_skipped, s1) \<Rightarrow> (Loop_return Skipped_result, l\<lparr>shared := s1\<rparr>)
            | (No_candidate, s1) \<Rightarrow>
                (case retakeAfterAiFailure E rnd (clickAttempts l) (screenshot l) of
                   None \<Rightarrow>
                     (Loop_thrown,
                      l\<lparr>clickAttempts := clickAttempts l + 1, attempts := attempts l + 1,
                        shared := s1\<rparr>)
                 | Some shot \<Rightarrow>
                     clickLoop E threadId rnd
                       (l\<lparr>clickAttempts := clickAttempts l + 1, attempts := attempts l + 1,
                          screenshot := shot, shared := s1\<rparr>))
            | (Candidate x y, s1) \<Rightarrow>
                (let l1 = l\<lparr>clickAttempts := clickAttempts l + 1, attempts := attempts l + 1,
                             submitted := submitted l + 1,
                             shared := deliver (clickInbox E rnd (clickAttempts l)) s1\<rparr>
                 in case tryClick E rnd (clickAttempts l) (screenshot l) of
                      Try_return r \<Rightarrow> (Loop_return r, l1)
                    | Try_round_solved \<Rightarrow> (Loop_done True, l1)
                    | Try_continue shot \<Rightarrow> clickLoop E threadId rnd (l1\<lparr>screenshot := shot\<rparr>)
                    | Try_caught \<Rightarrow> clickLoop E threadId rnd l1)))
      else (Loop_done False, l))"
  by pat_completeness auto
termination
  by (relation "measure (\<lambda>(E, threadId, rnd, l). maxClickAttempts E - clickAttempts l)") auto

section \<open>Task results and the batch loop\<close>

text \<open>
  The object that \<^verbatim>\<open>processAccount\<close> returns: \<^verbatim>\<open>{success, skipped, error, email,
  threadId}\<close>; a property that is absent reads as false.
\<close>

record task_result =
  success :: bool
  skipped :: bool
  resultError :: "string option"
  resultEmail :: "string option"
  resultThreadId :: nat

datatype outcome = Succeeded | Skipped | Failed

text \<open>
  How the batch loop and the summary classify a result: \<^verbatim>\<open>result.success\<close> first, then
  \<^verbatim>\<open>result.skipped\<close>.
\<close>

definition outcomeOf :: "task_result \<Rightarrow> outcome" where
  "outcomeOf r = (if success r then Succeeded else if skipped r then Skipped else Failed)"

text \<open>
  The \<^verbatim>\<open>while\<close> loop of \<^verbatim>\<open>app.post('/api/generate')\<close>. What
  \<^verbatim>\<open>processAccount\<close> returns for a thread identity depends on the outside world and is
  the parameter \<open>attempt\<close>. The tasks of a batch increment \<^verbatim>\<open>successfulCount\<close> as they
  settle; the loop reads it after \<^verbatim>\<open>Promise.all\<close>, when all have. The quotient of an
  empty batch is NaN, for which both comparisons of \<^verbatim>\<open>calculateOptimalBatchSize\<close> are
  false. The loop may run forever (a batch may be empty), so the model counts the
  remaining iterations in \<open>fuel\<close> and returns \<open>None\<close> when they are used up.
\<close>

record run_state =
  results :: "task_result list"
  successfulCount :: int
  totalAttempts :: int
  currentThreads :: int

definition MAX_THREADS :: int where
  "MAX_THREADS = 6"

definition batchThreadIds :: "int \<Rightarrow> int \<Rightarrow> int list" where
  "batchThreadIds totalBefore batchSize = map (\<lambda>i. totalBefore + 1 + int i) [0..<nat batchSize]"

definition nextThreads :: "task_result list \<Rightarrow> int \<Rightarrow> int \<Rightarrow> int" where
  "nextThreads batchResults current maxAllowedThreads =
     (if batchResults = [] then current
      else calculateOptimalBatchSize
             (of_nat (length (filter success batchResults)) / of_nat (length batchResults))
             current maxAllowedThreads)"

definition runBatch :: "(int \<Rightarrow> task_result) \<Rightarrow> int \<Rightarrow> int \<Rightarrow> run_state \<Rightarrow> run_state" where
  "runBatch attempt accountCount maxAllowedThreads st =
     (let remainingSuccessNeeded = accountCount - successfulCount st;
          batchSize = min (currentThreads st) remainingSuccessNeeded;
          batchResults = map attempt (batchThreadIds (totalAttempts st) batchSize)
      in \<lparr>results = results st @ batchResults,
          successfulCount = successfulCount st + int (length (filter success batchResults)),
          totalAttempts = totalAttempts st + int (length batchResults),
          currentThreads = nextThreads batchResults (currentThreads st) maxAllowedThreads\<rparr>)"

fun batchLoop ::
  "nat \<Rightarrow> (int \<Rightarrow> task_result) \<Rightarrow> int \<Rightarrow> int \<Rightarrow> run_state \<Rightarrow> run_state option" where
  "batchLoop fuel attempt accountCount maxAllowedThreads st =
     (if successfulCount st < accountCount \<and> totalAttempts st < accountCount * 8
      then (case fuel of
              0 \<Rightarrow> None
            | Suc fuel' \<Rightarrow>
                batchLoop fuel' attempt accountCount maxAllowedThreads
                  (runBatch attempt accountCount maxAllowedThreads st))
      else Some st)"

record summary =
  targetSuccessful :: int
  actualSuccessful :: int
  summaryTotalAttempts :: int
  summarySkipped :: nat
  summaryFailed :: nat

definition summarise :: "int \<Rightarrow> run_state \<Rightarrow> summary" where
  "summarise accountCount st =
     \<lparr>targetSuccessful = accountCount,
      actualSuccessful = successfulCount st,
      summaryTotalAttempts = totalAttempts st,
      summarySkipped = length (filter skipped (results st)),
      summaryFailed = length (filter (\<lambda>r. \<not> success r \<and> \<not> skipped r) (results st))\<rparr>"

definition apiGenerate ::
  "nat \<Rightarrow> (int \<Rightarrow> task_result) \<Rightarrow> int \<Rightarrow> int \<Rightarrow> summary option" where
  "apiGenerate fuel attempt accountCount maxThreads =
     (let maxAllowedThreads = min maxThreads MAX_THREADS;
          st = \<lparr>results = [], successfulCount = 0, totalAttempts = 0,
                 currentThreads = min 3 maxAllowedThreads\<rparr>
      in map_option (summarise accountCount)
           (batchLoop fuel attempt accountCount maxAllowedThreads st))"

definition failedResult :: "int \<Rightarrow> task_result" where
  "failedResult threadId =
     \<lparr>success = False, skipped = False,
      resultError = Some ''Failed to trigger/solve captcha'', resultEmail = None,
      resultThreadId = nat threadId\<rparr>"

section \<open>Captcha rounds\<close>

text \<open>
  One iteration of \<^verbatim>\<open>for (let round = 1; round <= maxCaptchaRounds; round++)\<close>.
  \<open>counters\<close> carries \<open>attempts\<close> and \<open>submitted\<close> from round to round.
\<close>

datatype round_exit = Round_return solve_result | Round_next | Round_thrown

record solve_state =
  attemptsMade :: nat
  clicksSubmitted :: nat
  sharedState :: backend

definition afterLoop :: "page_env \<Rightarrow> nat \<Rightarrow> bool \<Rightarrow> round_exit" where
  "afterLoop E rnd roundSolved =
     (if \<not> roundSolved \<and> rnd < maxCaptchaRounds
      then (case successCheck E rnd of
              None \<Rightarrow> Round_thrown
            | Some True \<Rightarrow> Round_return Solved
            | Some False \<Rightarrow> Round_next)
      else if \<not> roundSolved
      then (case finalCheck E rnd of
              None \<Rightarrow> Round_thrown
            | Some True \<Rightarrow> Round_return Solved
            | Some False \<Rightarrow> Round_return Unsolved)
      else (case completionCheck E rnd of
              None \<Rightarrow> Round_thrown
            | Some True \<Rightarrow> Round_return Solved
            | Some False \<Rightarrow> Round_next))"

definition solveRound ::
  "page_env \<Rightarrow> nat \<Rightarrow> nat \<Rightarrow> solve_state \<Rightarrow> round_exit \<times> solve_state" where
  "solveRound E threadId rnd c =
     (case (if rnd > 1 then earlySuccess E rnd else Some False) of
        None \<Rightarrow> (Round_thrown, c)
      | Some True \<Rightarrow> (Round_return Solved, c)
      | Some False \<Rightarrow>
     (case iframeHandle E rnd of
        None \<Rightarrow> (Round_thrown, c)
      | Some False \<Rightarrow> (Round_return Solved, c)
      | Some True \<Rightarrow>
     (case isVisible E rnd of
        None \<Rightarrow> (Round_thrown, c)
      | Some False \<Rightarrow> (Round_return Solved, c)
      | Some True \<Rightarrow>
     (if \<not> scrollIntoViewOk E rnd then (Round_thrown, c)
      else case contentFrame E rnd of
        None \<Rightarrow> (Round_thrown, c)
      | Some False \<Rightarrow> (Round_return Solved, c)
      | Some True \<Rightarrow>
     (let (ex, l) = clickLoop E threadId rnd
                      \<lparr>clickAttempts = 0, screenshot = firstScreenshot E rnd,
                       attempts = attemptsMade c, submitted = clicksSubmitted c,
                       shared = sharedState c\<rparr>;
          c' = \<lparr>attemptsMade = attempts l, clicksSubmitted = submitted l,
                sharedState = shared l\<rparr>
      in case ex of
           Loop_return r \<Rightarrow> (Round_return r, c')
         | Loop_thrown \<Rightarrow> (Round_thrown, c')
         | Loop_done roundSolved \<Rightarrow> (afterLoop E rnd roundSolved, c'))))))"

function captchaRounds ::
  "page_env \<Rightarrow> nat \<Rightarrow> nat \<Rightarrow> solve_state \<Rightarrow> round_exit \<times> solve_state" where
  "captchaRounds E threadId rnd c =
     (if rnd \<le> maxCaptchaRounds
      then (case solveRound E threadId rnd c of
              (Round_next, c') \<Rightarrow> captchaRounds E threadId (rnd + 1) c'
            | (ex, c') \<Rightarrow> (ex, c'))
      else (case finalSuccess E of
              None \<Rightarrow> (Round_thrown, c)
            | Some True \<Rightarrow> (Round_return Solved, c)
            | Some False \<Rightarrow> (Round_return Unsolved, c)))"
  by pat_completeness auto
termination
  by (relation "measure (\<lambda>(E, threadId, rnd, c). maxCaptchaRounds + 1 - rnd)") auto

text \<open>
  The whole function: an exception anywhere outside the click block reaches the
  \<^verbatim>\<open>catch\<close> at the end, which returns false.
\<close>

definition solveCaptchaManually ::
  "page_env \<Rightarrow> nat \<Rightarrow> backend \<Rightarrow> solve_result \<times> solve_state" where
  "solveCaptchaManually E threadId s =
     (let c0 = \<lparr>attemptsMade = 0, clicksSubmitted = 0, sharedState = s\<rparr>
      in if \<not> iframeAppears E then (Unsolved, c0)
         else (case captchaRounds E threadId 1 c0 of
                 (Round_return r, c) \<Rightarrow> (r, c)
               | (Round_thrown, c) \<Rightarrow> (Unsolved, c)
               | (Round_next, c) \<Rightarrow> (Unsolved, c)))"

section \<open>The task from the captcha turn to its result\<close>

text \<open>
  \<^verbatim>\<open>processAccount\<close> from the line after \<^verbatim>\<open>await waitForCaptchaTurn(threadId)\<close> to
  its \<^verbatim>\<open>return\<close>. The remaining answers of the outside world: \<open>slideScrollError\<close> is
  the message of the exception of the first \<^verbatim>\<open>evaluate\<close> of the guarded block, when it
  throws; \<open>getCodeClicked\<close> what \<^verbatim>\<open>waitForAndClickGetCodeButton\<close> returns (\<open>None\<close>
  when it throws); \<open>verificationCode\<close> what the inbox promise yields; \<open>formError\<close> the
  message of an exception while the form is completed; \<open>dialogs\<close> the alerts shown while
  the task waits for them and \<open>bodyStatus\<close> the reading of the page text (\<open>None\<close> when
  it throws).
\<close>

datatype invitation_status = Already_invited | Invitation_success | Status_unknown

record dialog =
  mentionsFlame :: bool
  saysAlreadyInvited :: bool
  saysAccepted :: bool

record task_env =
  pageEnv :: page_env
  slideScrollError :: "string option"
  getCodeClicked :: "bool option"
  verificationCode :: "string option"
  formError :: "string option"
  dialogs :: "dialog list"
  bodyStatus :: "invitation_status option"
  bodyError :: string
  taskEmail :: string

record dialog_flags =
  flameAlertSeen :: bool
  invitationAlertSeen :: bool
  invitationStatus :: "invitation_status option"

definition onDialog :: "dialog_flags \<Rightarrow> dialog \<Rightarrow> dialog_flags" where
  "onDialog f d =
     (let f1 = (if mentionsFlame d then f\<lparr>flameAlertSeen := True\<rparr> else f)
      in if saysAlreadyInvited d
         then f1\<lparr>invitationAlertSeen := True, invitationStatus := Some Already_invited\<rparr>
         else if saysAccepted d
         then f1\<lparr>invitationAlertSeen := True, invitationStatus := Some Invitation_success\<rparr>
         else f1)"

definition dialogFlags :: "dialog list \<Rightarrow> dialog_flags" where
  "dialogFlags ds =
     foldl onDialog
       \<lparr>flameAlertSeen = False, invitationAlertSeen = False, invitationStatus = None\<rparr> ds"

text \<open>The final value of \<^verbatim>\<open>invitationStatus\<close>; \<open>None\<close> when reading the page throws.\<close>

definition finalInvitationStatus :: "task_env \<Rightarrow> invitation_status option" where
  "finalInvitationStatus T =
     (let f = dialogFlags (dialogs T)
      in if \<not> invitationAlertSeen f \<or> invitationStatus f = None then bodyStatus T
         else invitationStatus f)"

definition successResult :: "task_env \<Rightarrow> nat \<Rightarrow> task_result" where
  "successResult T threadId =
     \<lparr>success = True, skipped = False, resultError = None, resultEmail = Some (taskEmail T),
      resultThreadId = threadId\<rparr>"

definition errorResult :: "string \<Rightarrow> nat \<Rightarrow> task_result" where
  "errorResult message threadId =
     \<lparr>success = False, skipped = False, resultError = Some message, resultEmail = None,
      resultThreadId = threadId\<rparr>"

definition skippedResult :: "nat \<Rightarrow> task_result" where
  "skippedResult threadId =
     \<lparr>success = False, skipped = True, resultError = None, resultEmail = None,
      resultThreadId = threadId\<rparr>"

definition finalizing :: "task_env \<Rightarrow> nat \<Rightarrow> task_result" where
  "finalizing T threadId =
     (case finalInvitationStatus T of
        None \<Rightarrow> errorResult (bodyError T) threadId
      | Some Already_invited \<Rightarrow> successResult T threadId
      | Some Invitation_success \<Rightarrow> successResult T threadId
      | Some Status_unknown \<Rightarrow> successResult T threadId)"

text \<open>
  The block guarded by \<^verbatim>\<open>try { ... } finally { releaseCaptchaLock(threadId) }\<close>, with
  its single trigger attempt (\<^verbatim>\<open>maxTriggerAttempts = 1\<close>), before the
  \<^verbatim>\<open>finally\<close> clause runs.
\<close>

datatype stage_exit = Stage_skipped | Stage_thrown string | Stage_done bool

definition captchaBlock :: "task_env \<Rightarrow> nat \<Rightarrow> backend \<Rightarrow> stage_exit \<times> solve_state" where
  "captchaBlock T threadId s =
     (let c0 = \<lparr>attemptsMade = 0, clicksSubmitted = 0, sharedState = s\<rparr>
      in case slideScrollError T of
           Some message \<Rightarrow> (Stage_thrown message, c0)
         | None \<Rightarrow>
             (case getCodeClicked T of
                None \<Rightarrow> (Stage_done False, c0)
              | Some False \<Rightarrow> (Stage_done False, c0)
              | Some True \<Rightarrow>
                  (case solveCaptchaManually (pageEnv T) threadId s of
                     (Skipped_result, c) \<Rightarrow> (Stage_skipped, c)
                   | (Solved, c) \<Rightarrow> (Stage_done True, c)
                   | (Unsolved, c) \<Rightarrow> (Stage_done False, c))))"

text \<open>The block followed by its \<^verbatim>\<open>finally\<close> clause.\<close>

definition captchaStage :: "task_env \<Rightarrow> nat \<Rightarrow> backend \<Rightarrow> stage_exit \<times> solve_state" where
  "captchaStage T threadId s =
     (let (ex, c) = captchaBlock T threadId s
      in (ex, c\<lparr>sharedState := releaseCaptchaLock threadId (sharedState c)\<rparr>))"

definition afterCaptcha :: "task_env \<Rightarrow> nat \<Rightarrow> task_result" where
  "afterCaptcha T threadId =
     (case verificationCode T of
        None \<Rightarrow> errorResult ''Failed to receive verification code'' threadId
      | Some code \<Rightarrow>
          (case formError T of
             Some message \<Rightarrow> errorResult message threadId
           | None \<Rightarrow> finalizing T threadId))"

definition processAccountFromTurn ::
  "task_env \<Rightarrow> nat \<Rightarrow> backend \<Rightarrow> task_result \<times> solve_state" where
  "processAccountFromTurn T threadId s =
     (case captchaStage T threadId s of
        (Stage_skipped, c) \<Rightarrow> (skippedResult threadId, c)
      | (Stage_thrown message, c) \<Rightarrow> (errorResult message threadId, c)
      | (Stage_done captchaSuccessfullyTriggered, c) \<Rightarrow>
          if \<not> captchaSuccessfullyTriggered
          then (errorResult ''Failed to trigger/solve captcha'' threadId, c)
          else (afterCaptcha T threadId, c))"

section \<open>The way to an attempt\<close>









section \<open>Scenarios\<close>

text \<open>
  The environments that the theorems speak about. \<open>noHeuristicFires\<close>: every check for
  success says no; the captcha iframe stays present and visible, no success text and no
  countdown appears. \<open>frameReadable\<close>: the content of the iframe is accessible and every
  retry obtains a new screenshot (the function takes a missing content frame at the start
  of a round, and a missing retry screenshot after a click, as a sign of success).
  \<open>nothingThrows\<close>: no awaited call throws. \<open>aiSolverAnswers\<close>: the AI solver is
  enabled, each round starts with a screenshot and the solver names a position each time.
  \<open>noSkipArrives\<close>: no skip message for the thread is handled during the rounds.
\<close>

definition noSkipFor :: "nat \<Rightarrow> ws_data list \<Rightarrow> bool" where
  "noSkipFor t ms \<longleftrightarrow> (\<forall>m \<in> set ms. \<not> (msgType m = Skip_captcha \<and> msgThreadId m = Some t))"

definition noHeuristicFires :: "page_env \<Rightarrow> bool" where
  "noHeuristicFires E \<longleftrightarrow>
     (\<forall>r. earlySuccess E r = Some False \<and> iframeHandle E r = Some True \<and>
          isVisible E r = Some True \<and>
          successCheck E r = Some False \<and> finalCheck E r = Some False \<and>
          completionCheck E r = Some False) \<and>
     (\<forall>r a. quickSuccessCheck E r a = Some False \<and>
            captchaStatus E r a = Some Status_new_captcha \<and>
            captchaStillPresent E r a = Some True \<and> currentIframe E r a = Some True) \<and>
     finalSuccess E = Some False"

definition frameReadable :: "page_env \<Rightarrow> bool" where
  "frameReadable E \<longleftrightarrow>
     (\<forall>r. contentFrame E r = Some True) \<and>
     (\<forall>r a. currentFrame E r a = Some True \<and> newScreenshot E r a \<noteq> None)"

definition nothingThrows :: "page_env \<Rightarrow> bool" where
  "nothingThrows E \<longleftrightarrow>
     iframeAppears E \<and> (\<forall>r. scrollIntoViewOk E r) \<and> (\<forall>r a. clickOk E r a)"

definition aiSolverAnswers :: "page_env \<Rightarrow> bool" where
  "aiSolverAnswers E \<longleftrightarrow>
     useAiSolver E \<and> (\<forall>r. firstScreenshot E r \<noteq> None) \<and>
     (\<forall>r a. solveWithGemini E (geminiAnswer E r a) \<noteq> None)"

definition noSkipArrives :: "nat \<Rightarrow> page_env \<Rightarrow> bool" where
  "noSkipArrives t E \<longleftrightarrow> (\<forall>r a. noSkipFor t (inbox E r a) \<and> noSkipFor t (clickInbox E r a))"

definition quietPage :: page_env where
  "quietPage =
     \<lparr>useAiSolver = True, iframeAppears = True,
      earlySuccess = (\<lambda>r. Some False), iframeHandle = (\<lambda>r. Some True),
      isVisible = (\<lambda>r. Some True), scrollIntoViewOk = (\<lambda>r. True),
      contentFrame = (\<lambda>r. Some True), firstScreenshot = (\<lambda>r. Some 0),
      inbox = (\<lambda>r a. []), geminiAnswer = (\<lambda>r a. Some 4), clickInbox = (\<lambda>r a. []),
      clickOk = (\<lambda>r a. True), quickSuccessCheck = (\<lambda>r a. Some False),
      captchaStatus = (\<lambda>r a. Some Status_new_captcha),
      captchaStillPresent = (\<lambda>r a. Some True), currentIframe = (\<lambda>r a. Some True),
      currentFrame = (\<lambda>r a. Some True), newScreenshot = (\<lambda>r a. Some (Suc a)),
      successCheck = (\<lambda>r. Some False), finalCheck = (\<lambda>r. Some False),
      completionCheck = (\<lambda>r. Some False), finalSuccess = Some False\<rparr>"

text \<open>
  Four variations of the quiet page: no retry obtains a screenshot; the solver never names
  a position; no round obtains its first screenshot; the search for the iframe at the
  start of the second round throws.
\<close>

definition noRetryScreenshotPage :: page_env where
  "noRetryScreenshotPage = quietPage\<lparr>newScreenshot := (\<lambda>r a. None)\<rparr>"

definition silentSolverPage :: page_env where
  "silentSolverPage = quietPage\<lparr>geminiAnswer := (\<lambda>r a. None)\<rparr>"

definition noFirstScreenshotPage :: page_env where
  "noFirstScreenshotPage = quietPage\<lparr>firstScreenshot := (\<lambda>r. None)\<rparr>"

definition throwingPage :: page_env where
  "throwingPage = quietPage\<lparr>iframeHandle := (\<lambda>r. if r = 2 then None else Some True)\<rparr>"

definition taskWith :: "page_env \<Rightarrow> task_env" where
  "taskWith E =
     \<lparr>pageEnv = E, slideScrollError = None, getCodeClicked = Some True,
      verificationCode = Some ''123456'', formError = None, dialogs = [],
      bodyStatus = Some Status_unknown, bodyError = ''evaluate failed'',
      taskEmail = ''a@example.com''\<rparr>"


definition skipFor :: "nat \<Rightarrow> ws_data" where
  "skipFor t = \<lparr>msgType = Skip_captcha, msgThreadId = Some t, clickX = 0, clickY = 0,
     clickPosition = 0, skippedField = False\<rparr>"




text \<open>The shared state in which thread 1 holds the turn and thread 2 waits for it.\<close>

definition holding :: backend where
  "holding = waitForCaptchaTurn 2 (waitForCaptchaTurn 1 backendInit)"

definition batchInv :: "int \<Rightarrow> run_state \<Rightarrow> bool" where
  "batchInv accountCount st \<longleftrightarrow>
     0 \<le> successfulCount st \<and> successfulCount st \<le> accountCount \<and> 1 \<le> currentThreads st"

section \<open>Theorems\<close>

text \<open>
  C4: the adaptive concurrency update is min(previous + 1, max) for a rate above 0.75,
  max(previous - 1, 2) for a rate below 0.35 and the previous value otherwise; with
  previous = 3 and max = 6 the rates 0.8, 0.2 and 0.5 give 4, 2 and 3.
\<close>

theorem calculateOptimalBatchSize_spec:
  "(rate > 0.75 \<longrightarrow> calculateOptimalBatchSize rate prev mx = min (prev + 1) mx) \<and>
   (rate < 0.35 \<longrightarrow> calculateOptimalBatchSize rate prev mx = max (prev - 1) 2) \<and>
   (\<not> rate > 0.75 \<and> \<not> rate < 0.35 \<longrightarrow> calculateOptimalBatchSize rate prev mx = prev) \<and>
   calculateOptimalBatchSize 0.8 3 6 = 4 \<and>
   calculateOptimalBatchSize 0.2 3 6 = 2 \<and>
   calculateOptimalBatchSize 0.5 3 6 = 3"
  by (simp add: calculateOptimalBatchSize_def)

theorem calculateOptimalBatchSize_spec_witness:
  "(0.8::rat) > 0.75 \<and> calculateOptimalBatchSize 0.8 3 6 = min (3 + 1) 6 \<and>
   (0.2::rat) < 0.35 \<and> calculateOptimalBatchSize 0.2 3 6 = max (3 - 1) 2 \<and>
   \<not> (0.5::rat) > 0.75 \<and> \<not> (0.5::rat) < 0.35 \<and> calculateOptimalBatchSize 0.5 3 6 = 3"
  using calculateOptimalBatchSize_spec [of "0.8" 3 6]
    calculateOptimalBatchSize_spec [of "0.2" 3 6]
    calculateOptimalBatchSize_spec [of "0.5" 3 6]
  by simp

subsection \<open>Turn queue\<close>

lemma arrivals_append: "arrivals (cs @ ds) = arrivals cs @ arrivals ds"
  by (induction cs rule: arrivals.induct) simp_all

lemma arbiterInv_init: "arbiterInv [] backendInit"
  by (simp add: arbiterInv_def backendInit_def holderList_def)

lemma arbiterInv_step:
  assumes "arbiterInv calls s"
  shows "arbiterInv (calls @ [c]) (arbiterStep s c)"
proof (cases c)
  case (Enqueue t)
  with assms show ?thesis
    by (auto simp: arbiterInv_def arrivals_append waitForCaptchaTurn_def
        processCaptchaQueue_def holderList_def split: option.splits list.splits)
next
  case (Release t)
  with assms show ?thesis
    by (auto simp: arbiterInv_def arrivals_append releaseCaptchaLock_def
        processCaptchaQueue_def holderList_def split: option.splits list.splits)
qed

lemma arbiterInv_run: "arbiterInv calls (arbiterRun calls)"
proof (induction calls rule: rev_induct)
  case Nil
  show ?case by (simp add: arbiterRun_def arbiterInv_init)
next
  case (snoc c calls)
  then show ?case using arbiterInv_step [of calls "arbiterRun calls" c]
    by (simp add: arbiterRun_def)
qed

text \<open>
  C1: after any sequence of enqueue and release calls, the turns granted so far followed by
  the waiting entries are exactly the enqueue calls in arrival order; every granted turn
  except that of the one current holder has been released, so at most one task holds the
  turn; nobody waits while the turn is free. A release by a thread that is not the holder
  changes nothing; a release by the holder hands the turn to the head of the queue at once,
  or frees it when nobody waits.
\<close>

theorem turn_arbiter_fifo_exclusive:
  "(let s = arbiterRun calls in
      acquiredLog s @ captchaQueue s = arrivals calls \<and>
      acquiredLog s = releasedLog s @ holderList s \<and>
      length (holderList s) \<le> 1 \<and>
      (activeCaptchaThreadId s = None \<longrightarrow> captchaQueue s = [])) \<and>
   (activeCaptchaThreadId s' \<noteq> Some t \<longrightarrow> releaseCaptchaLock t s' = s') \<and>
   (activeCaptchaThreadId s' = Some t \<and> captchaQueue s' = n # rest \<longrightarrow>
      activeCaptchaThreadId (releaseCaptchaLock t s') = Some n \<and>
      captchaQueue (releaseCaptchaLock t s') = rest \<and>
      acquiredLog (releaseCaptchaLock t s') = acquiredLog s' @ [n]) \<and>
   (activeCaptchaThreadId s' = Some t \<and> captchaQueue s' = [] \<longrightarrow>
      activeCaptchaThreadId (releaseCaptchaLock t s') = None \<and>
      acquiredLog (releaseCaptchaLock t s') = acquiredLog s')"
proof -
  have inv: "arbiterInv calls (arbiterRun calls)" by (rule arbiterInv_run)
  have one: "length (holderList (arbiterRun calls)) \<le> 1"
    by (simp add: holderList_def split: option.splits)
  from inv one have run: "let s = arbiterRun calls in
      acquiredLog s @ captchaQueue s = arrivals calls \<and>
      acquiredLog s = releasedLog s @ holderList s \<and>
      length (holderList s) \<le> 1 \<and>
      (activeCaptchaThreadId s = None \<longrightarrow> captchaQueue s = [])"
    unfolding arbiterInv_def Let_def by blast
  have rel: "(activeCaptchaThreadId s' \<noteq> Some t \<longrightarrow> releaseCaptchaLock t s' = s') \<and>
   (activeCaptchaThreadId s' = Some t \<and> captchaQueue s' = n # rest \<longrightarrow>
      activeCaptchaThreadId (releaseCaptchaLock t s') = Some n \<and>
      captchaQueue (releaseCaptchaLock t s') = rest \<and>
      acquiredLog (releaseCaptchaLock t s') = acquiredLog s' @ [n]) \<and>
   (activeCaptchaThreadId s' = Some t \<and> captchaQueue s' = [] \<longrightarrow>
      activeCaptchaThreadId (releaseCaptchaLock t s') = None \<and>
      acquiredLog (releaseCaptchaLock t s') = acquiredLog s')"
    by (simp add: releaseCaptchaLock_def processCaptchaQueue_def)
  from run rel show ?thesis by blast
qed

lemmas arbiter_eval =
  arbiterRun_def backendInit_def waitForCaptchaTurn_def releaseCaptchaLock_def
  processCaptchaQueue_def holderList_def

theorem turn_arbiter_fifo_exclusive_witness:
  "activeCaptchaThreadId (arbiterRun [Enqueue 1, Enqueue 2, Enqueue 3]) = Some 1 \<and>
   captchaQueue (arbiterRun [Enqueue 1, Enqueue 2, Enqueue 3]) = [2, 3] \<and>
   acquiredLog (arbiterRun [Enqueue 1, Enqueue 2, Enqueue 3]) = [1] \<and>
   activeCaptchaThreadId (arbiterRun [Enqueue 1, Enqueue 2, Enqueue 3]) \<noteq> Some 2 \<and>
   releaseCaptchaLock 2 (arbiterRun [Enqueue 1, Enqueue 2, Enqueue 3]) =
     arbiterRun [Enqueue 1, Enqueue 2, Enqueue 3] \<and>
   activeCaptchaThreadId (releaseCaptchaLock 1 (arbiterRun [Enqueue 1, Enqueue 2, Enqueue 3]))
     = Some 2 \<and>
   acquiredLog (releaseCaptchaLock 1 (arbiterRun [Enqueue 1, Enqueue 2, Enqueue 3])) = [1, 2] \<and>
   activeCaptchaThreadId (arbiterRun [Enqueue 1]) = Some 1 \<and>
   captchaQueue (arbiterRun [Enqueue 1]) = [] \<and>
   activeCaptchaThreadId (releaseCaptchaLock 1 (arbiterRun [Enqueue 1])) = None \<and>
   activeCaptchaThreadId (arbiterRun [Enqueue 1, Release 1]) = None \<and>
   captchaQueue (arbiterRun [Enqueue 1, Release 1]) = [] \<and>
   acquiredLog (arbiterRun [Enqueue 1, Release 1]) = arrivals [Enqueue 1, Release 1]"
  using turn_arbiter_fifo_exclusive
      [of "[Enqueue 1, Enqueue 2, Enqueue 3]" "arbiterRun [Enqueue 1, Enqueue 2, Enqueue 3]"
        2 2 "[3]"]
    turn_arbiter_fifo_exclusive
      [of "[Enqueue 1, Enqueue 2, Enqueue 3]" "arbiterRun [Enqueue 1, Enqueue 2, Enqueue 3]"
        1 2 "[3]"]
    turn_arbiter_fifo_exclusive
      [of "[Enqueue 1, Release 1]" "arbiterRun [Enqueue 1]" 1 2 "[3]"]
  by (simp add: arbiter_eval)

subsection \<open>Context pool\<close>











lemmas pool_eval =
  poolRun_def contextPool_def newBrowserContextPool_def getContext_def releaseBegin_def
  releaseEnd_def releaseContext_def setAdd_def setDelete_def Let_def

text \<open>
  Releases that overlap exceed the bound of the free stack as well: seven contexts in use,
  whose releases all test the length before any of them pushes, leave seven free ones.
\<close>

lemma pool_overlapping_releases_exceed:
  "length (pool (poolRun [Acquire (Some 1), Acquire (Some 2), Acquire (Some 3), Acquire (Some 4),
      Acquire (Some 5), Acquire (Some 6), Acquire (Some 7),
      Release_begin 1, Release_begin 2, Release_begin 3, Release_begin 4, Release_begin 5, Release_begin 6, Release_begin 7,
      Release_end 1 True, Release_end 2 True, Release_end 3 True, Release_end 4 True, Release_end 5 True, Release_end 6 True, Release_end 7 True])) = 7"
  by (simp add: pool_eval)






subsection \<open>Answer registry\<close>

lemma distinct_map_eqD:
  "distinct (map f xs) \<Longrightarrow> x \<in> set xs \<Longrightarrow> y \<in> set xs \<Longrightarrow> f x = f y \<Longrightarrow> x = y"
  by (auto simp: distinct_map dest: inj_onD)

lemma distinct_fst_mapDelete: "distinct (map fst m) \<Longrightarrow> distinct (map fst (mapDelete k m))"
  by (simp add: mapDelete_def distinct_map_filter)

lemma in_set_mapDelete: "e \<in> set (mapDelete k m) \<longleftrightarrow> e \<in> set m \<and> fst e \<noteq> k"
  by (simp add: mapDelete_def)

lemma fst_set_mapDelete: "fst ` set (mapDelete k m) = fst ` set m - {k}"
  by (auto simp: mapDelete_def)

lemma mapGet_Some_in: "mapGet m k = Some v \<Longrightarrow> (k, v) \<in> set m"
  by (simp add: mapGet_def map_of_SomeD)

lemma map_fst_mapSet:
  "map fst (mapSet k v m) = (if k \<in> fst ` set m then map fst m else map fst m @ [k])"
  by (induction m) (auto simp: mapSet_def)

lemma in_set_mapSet: "e \<in> set (mapSet k v m) \<Longrightarrow> e = (k, v) \<or> e \<in> set m"
  by (auto simp: mapSet_def split: if_splits)

lemma relayInv_settle:
  assumes inv: "relayInv s" and pt: "(p, t) \<in> set (timers s)"
  shows "relayInv (s\<lparr>timers := mapDelete p (timers s),
       settledLog := settledLog s @ [(p, v)],
       captchaResolvers := mapDelete t (captchaResolvers s)\<rparr>)"
proof -
  have dr: "distinct (map fst (captchaResolvers s))" and dt: "distinct (map fst (timers s))"
    and rt: "\<forall>e \<in> set (captchaResolvers s). (snd e, fst e) \<in> set (timers s)"
    and dj: "fst ` set (timers s) \<inter> fst ` set (settledLog s) = {}"
    and ds: "distinct (map fst (settledLog s))"
    and bd: "\<forall>k \<in> fst ` set (timers s) \<union> fst ` set (settledLog s). k < promiseCount s"
    using inv by (simp_all add: relayInv_def)
  have pin: "p \<in> fst ` set (timers s)" using pt by force
  have pn: "p \<notin> fst ` set (settledLog s)" using dj pin by blast
  have keep: "(snd e, fst e) \<in> set (mapDelete p (timers s))"
    if e: "e \<in> set (mapDelete t (captchaResolvers s))" for e
  proof -
    from e have e1: "e \<in> set (captchaResolvers s)" and ne: "fst e \<noteq> t"
      by (simp_all add: in_set_mapDelete)
    from rt e1 have et: "(snd e, fst e) \<in> set (timers s)" by blast
    have "snd e \<noteq> p"
    proof
      assume "snd e = p"
      with distinct_map_eqD [OF dt et pt] ne show False by simp
    qed
    with et show ?thesis by (simp add: in_set_mapDelete)
  qed
  have c1: "distinct (map fst (mapDelete t (captchaResolvers s)))"
    using dr by (rule distinct_fst_mapDelete)
  have c2: "distinct (map fst (mapDelete p (timers s)))"
    using dt by (rule distinct_fst_mapDelete)
  have c4: "fst ` set (mapDelete p (timers s)) \<inter> fst ` set (settledLog s @ [(p, v)]) = {}"
    using dj by (auto simp: fst_set_mapDelete)
  have c5: "distinct (map fst (settledLog s @ [(p, v)]))"
    using ds pn by simp
  have c6: "\<forall>k \<in> fst ` set (mapDelete p (timers s)) \<union> fst ` set (settledLog s @ [(p, v)]).
      k < promiseCount s"
    using bd pin by (auto simp: fst_set_mapDelete)
  show ?thesis unfolding relayInv_def using c1 c2 keep c4 c5 c6 by simp
qed

lemma relayInv_resolve:
  assumes inv: "relayInv s" and get: "mapGet (captchaResolvers s) t = Some p"
  shows "relayInv (resolveAndDelete t p v s)"
proof -
  have "(t, p) \<in> set (captchaResolvers s)" using get by (rule mapGet_Some_in)
  with inv have "(p, t) \<in> set (timers s)" by (force simp: relayInv_def)
  with inv show ?thesis unfolding resolveAndDelete_def by (rule relayInv_settle)
qed

lemma relayInv_timeout:
  assumes inv: "relayInv s"
  shows "relayInv (timeoutFires p s)"
proof (cases "mapGet (timers s) p")
  case None
  then show ?thesis using inv by (simp add: timeoutFires_def)
next
  case (Some t)
  then have "(p, t) \<in> set (timers s)" by (rule mapGet_Some_in)
  with inv have "relayInv (s\<lparr>timers := mapDelete p (timers s),
       settledLog := settledLog s @ [(p, Timeout_null)],
       captchaResolvers := mapDelete t (captchaResolvers s)\<rparr>)" by (rule relayInv_settle)
  moreover have "timeoutFires p s = s\<lparr>timers := mapDelete p (timers s),
       settledLog := settledLog s @ [(p, Timeout_null)],
       captchaResolvers := mapDelete t (captchaResolvers s)\<rparr>"
    using Some by (simp add: timeoutFires_def)
  ultimately show ?thesis by simp
qed

lemma relayInv_wait:
  assumes inv: "relayInv s"
  shows "relayInv (snd (waitForCaptchaSolution t s))"
proof -
  let ?p = "promiseCount s"
  have dr: "distinct (map fst (captchaResolvers s))" and dt: "distinct (map fst (timers s))"
    and rt: "\<forall>e \<in> set (captchaResolvers s). (snd e, fst e) \<in> set (timers s)"
    and dj: "fst ` set (timers s) \<inter> fst ` set (settledLog s) = {}"
    and ds: "distinct (map fst (settledLog s))"
    and bd: "\<forall>k \<in> fst ` set (timers s) \<union> fst ` set (settledLog s). k < promiseCount s"
    using inv by (simp_all add: relayInv_def)
  have f1: "?p \<notin> fst ` set (timers s)" and f2: "?p \<notin> fst ` set (settledLog s)"
    using bd by auto
  have c1: "distinct (map fst (mapSet t ?p (captchaResolvers s)))"
    using dr by (auto simp: map_fst_mapSet)
  have c2: "distinct (map fst (timers s @ [(?p, t)]))" using dt f1 by simp
  have c3: "(snd e, fst e) \<in> set (timers s @ [(?p, t)])"
    if "e \<in> set (mapSet t ?p (captchaResolvers s))" for e
    using in_set_mapSet [OF that] rt by auto
  have c4: "fst ` set (timers s @ [(?p, t)]) \<inter> fst ` set (settledLog s) = {}"
    using dj f2 by auto
  have c6: "\<forall>k \<in> fst ` set (timers s @ [(?p, t)]) \<union> fst ` set (settledLog s). k < ?p + 1"
    using bd by (auto simp: less_Suc_eq)
  show ?thesis unfolding relayInv_def waitForCaptchaSolution_def Let_def
    using c1 c2 c3 c4 ds c6 by simp
qed

lemma relayInv_flags: "relayInv (s\<lparr>skipCaptchaFlags := f\<rparr>) = relayInv s"
  by (simp add: relayInv_def)

lemma relayInv_onMessage:
  assumes inv: "relayInv s"
  shows "relayInv (onMessage d s)"
  using inv
  by (auto simp: onMessage_def Let_def relayInv_flags intro!: relayInv_resolve
      split: message_type.splits option.splits)

lemma relayInv_step: "relayInv s \<Longrightarrow> relayInv (relayStep s e)"
  by (cases e) (simp_all add: relayInv_wait relayInv_onMessage relayInv_timeout)

lemma relayInv_run: "relayInv (relayRun events)"
proof (induction events rule: rev_induct)
  case Nil
  show ?case by (simp add: relayRun_def relayInv_def backendInit_def)
next
  case (snoc e events)
  then show ?case by (simp add: relayRun_def relayInv_step)
qed

lemma mapGet_mapDelete: "mapGet (mapDelete k m) k = None"
  by (auto simp: mapGet_def mapDelete_def map_of_eq_None_iff)

text \<open>
  C9, amended: every promise of the registry is settled at most once, whatever waits,
  messages and timeouts occur. An answer for a thread identity without a registered
  resolver changes nothing; a skip for such an identity sets the skip flag of that thread
  and leaves everything else, the registry, the timers and the promises, as it was. An
  answer carrying a thread identity settles the promise registered under
  that identity with the answer, a skip settles it with the skip reply, a timeout with
  null, and each of them deletes the resolver.
\<close>

theorem answer_registry_one_shot:
  "distinct (map fst (settledLog (relayRun events))) \<and>
   ((msgType d = Click \<or> msgType d = Captcha_click) \<and> msgThreadId d = Some t \<and> t \<noteq> 0 \<and>
      mapGet (captchaResolvers s) t = None \<longrightarrow> onMessage d s = s) \<and>
   (msgType d = Skip_captcha \<and> msgThreadId d = Some t \<and>
      mapGet (captchaResolvers s) t = None \<longrightarrow>
        onMessage d s = s\<lparr>skipCaptchaFlags := insert t (skipCaptchaFlags s)\<rparr>) \<and>
   ((msgType d = Click \<or> msgType d = Captcha_click) \<and> msgThreadId d = Some t \<and> t \<noteq> 0 \<and>
      mapGet (captchaResolvers s) t = Some p \<longrightarrow>
        settledLog (onMessage d s) = settledLog s @ [(p, Click_reply d)] \<and>
        mapGet (captchaResolvers (onMessage d s)) t = None) \<and>
   (msgType d = Skip_captcha \<and> msgThreadId d = Some t \<and>
      mapGet (captchaResolvers s) t = Some p \<longrightarrow>
        settledLog (onMessage d s) = settledLog s @ [(p, Skipped_reply)] \<and>
        mapGet (captchaResolvers (onMessage d s)) t = None) \<and>
   (mapGet (timers s) p = Some t \<longrightarrow>
        settledLog (timeoutFires p s) = settledLog s @ [(p, Timeout_null)] \<and>
        mapGet (captchaResolvers (timeoutFires p s)) t = None \<and>
        mapGet (timers (timeoutFires p s)) p = None)"
proof -
  have once: "distinct (map fst (settledLog (relayRun events)))"
    using relayInv_run [of events] by (simp add: relayInv_def)
  have absent_click: "(msgType d = Click \<or> msgType d = Captcha_click) \<and>
      msgThreadId d = Some t \<and> t \<noteq> 0 \<and> mapGet (captchaResolvers s) t = None
      \<longrightarrow> onMessage d s = s"
    by (auto simp: onMessage_def truthy_def)
  have absent_skip: "msgType d = Skip_captcha \<and> msgThreadId d = Some t \<and>
      mapGet (captchaResolvers s) t = None \<longrightarrow>
        onMessage d s = s\<lparr>skipCaptchaFlags := insert t (skipCaptchaFlags s)\<rparr>"
    by (simp add: onMessage_def)
  have click: "(msgType d = Click \<or> msgType d = Captcha_click) \<and> msgThreadId d = Some t \<and>
      t \<noteq> 0 \<and> mapGet (captchaResolvers s) t = Some p \<longrightarrow>
        settledLog (onMessage d s) = settledLog s @ [(p, Click_reply d)] \<and>
        mapGet (captchaResolvers (onMessage d s)) t = None"
    by (auto simp: onMessage_def truthy_def resolveAndDelete_def mapGet_mapDelete)
  have skip: "msgType d = Skip_captcha \<and> msgThreadId d = Some t \<and>
      mapGet (captchaResolvers s) t = Some p \<longrightarrow>
        settledLog (onMessage d s) = settledLog s @ [(p, Skipped_reply)] \<and>
        mapGet (captchaResolvers (onMessage d s)) t = None"
    by (simp add: onMessage_def resolveAndDelete_def mapGet_mapDelete)
  have timeout: "mapGet (timers s) p = Some t \<longrightarrow>
        settledLog (timeoutFires p s) = settledLog s @ [(p, Timeout_null)] \<and>
        mapGet (captchaResolvers (timeoutFires p s)) t = None \<and>
        mapGet (timers (timeoutFires p s)) p = None"
    by (simp add: timeoutFires_def mapGet_mapDelete)
  from once absent_click absent_skip click skip timeout show ?thesis by blast
qed

lemmas relay_eval =
  relayRun_def backendInit_def waitForCaptchaSolution_def onMessage_def timeoutFires_def
  resolveAndDelete_def mapGet_def mapSet_def mapDelete_def truthy_def Let_def

theorem answer_registry_one_shot_witness:
  "captchaResolvers (relayRun [Wait 1, Wait 2]) = [(1, 0), (2, 1)] \<and>
   mapGet (captchaResolvers (relayRun [Wait 1, Wait 2])) 2 = Some 1 \<and>
   settledLog (onMessage \<lparr>msgType = Captcha_click, msgThreadId = Some 2, clickX = 60, clickY = 190, clickPosition = 1, skippedField = False\<rparr> (relayRun [Wait 1, Wait 2])) = [(1, Click_reply \<lparr>msgType = Captcha_click, msgThreadId = Some 2, clickX = 60, clickY = 190, clickPosition = 1, skippedField = False\<rparr>)] \<and>
   captchaResolvers (onMessage \<lparr>msgType = Captcha_click, msgThreadId = Some 2, clickX = 60, clickY = 190, clickPosition = 1, skippedField = False\<rparr> (relayRun [Wait 1, Wait 2])) = [(1, 0)] \<and>
   mapGet (captchaResolvers (relayRun [Wait 1, Wait 2])) 3 = None \<and>
   onMessage \<lparr>msgType = Click, msgThreadId = Some 3, clickX = 60, clickY = 190, clickPosition = 1, skippedField = False\<rparr> (relayRun [Wait 1, Wait 2]) = (relayRun [Wait 1, Wait 2]) \<and>
   skipCaptchaFlags (onMessage \<lparr>msgType = Skip_captcha, msgThreadId = Some 3, clickX = 60, clickY = 190, clickPosition = 1, skippedField = False\<rparr> (relayRun [Wait 1, Wait 2])) = {3} \<and>
   captchaResolvers (onMessage \<lparr>msgType = Skip_captcha, msgThreadId = Some 3, clickX = 60, clickY = 190, clickPosition = 1, skippedField = False\<rparr> (relayRun [Wait 1, Wait 2])) = captchaResolvers (relayRun [Wait 1, Wait 2]) \<and>
   mapGet (captchaResolvers (relayRun [Wait 1, Wait 2])) 1 = Some 0 \<and>
   settledLog (onMessage \<lparr>msgType = Skip_captcha, msgThreadId = Some 1, clickX = 60, clickY = 190, clickPosition = 1, skippedField = False\<rparr> (relayRun [Wait 1, Wait 2])) = [(0, Skipped_reply)] \<and>
   mapGet (timers (relayRun [Wait 1, Wait 2])) 0 = Some 1 \<and>
   settledLog (timeoutFires 0 (relayRun [Wait 1, Wait 2])) = [(0, Timeout_null)] \<and>
   captchaResolvers (timeoutFires 0 (relayRun [Wait 1, Wait 2])) = [(2, 1)] \<and>
   distinct (map fst (settledLog (relayRun
     [Wait 1, Wait 2, Message \<lparr>msgType = Captcha_click, msgThreadId = Some 2, clickX = 60, clickY = 190, clickPosition = 1, skippedField = False\<rparr>, Timeout 0, Timeout 0, Message \<lparr>msgType = Skip_captcha, msgThreadId = Some 1, clickX = 60, clickY = 190, clickPosition = 1, skippedField = False\<rparr>, Timeout 1])))"
  using answer_registry_one_shot [of "[Wait 1, Wait 2, Message \<lparr>msgType = Captcha_click, msgThreadId = Some 2, clickX = 60, clickY = 190, clickPosition = 1, skippedField = False\<rparr>, Timeout 0, Timeout 0, Message \<lparr>msgType = Skip_captcha, msgThreadId = Some 1, clickX = 60, clickY = 190, clickPosition = 1, skippedField = False\<rparr>, Timeout 1]" "\<lparr>msgType = Captcha_click, msgThreadId = Some 2, clickX = 60, clickY = 190, clickPosition = 1, skippedField = False\<rparr>" 2 "relayRun [Wait 1, Wait 2]" 1]
    answer_registry_one_shot [of "[]" "\<lparr>msgType = Click, msgThreadId = Some 3, clickX = 60, clickY = 190, clickPosition = 1, skippedField = False\<rparr>" 3 "relayRun [Wait 1, Wait 2]" 0]
    answer_registry_one_shot [of "[]" "\<lparr>msgType = Skip_captcha, msgThreadId = Some 3, clickX = 60, clickY = 190, clickPosition = 1, skippedField = False\<rparr>" 3 "relayRun [Wait 1, Wait 2]" 0]
    answer_registry_one_shot [of "[]" "\<lparr>msgType = Skip_captcha, msgThreadId = Some 1, clickX = 60, clickY = 190, clickPosition = 1, skippedField = False\<rparr>" 1 "relayRun [Wait 1, Wait 2]" 0]
  by (simp add: relay_eval)

subsection \<open>Frontend captcha queue\<close>

lemma distinct_filter_append_new:
  "distinct (map f xs) \<Longrightarrow> distinct (map f (filter (\<lambda>c. f c \<noteq> f x) xs @ [x]))"
  by (auto simp: distinct_map_filter)

lemma frontendInv_step:
  assumes "frontendInv u"
  shows "frontendInv (frontendStep u e)"
proof (cases e)
  case (CaptchaArrives c)
  with assms distinct_filter_append_new [of itemThreadId "pendingCaptchas u" c] show ?thesis
    by (simp add: frontendInv_def onCaptchaMessage_def split: option.splits)
next
  case Render
  with assms show ?thesis by (simp add: frontendInv_def render_def)
next
  case SyncRef
  with assms show ?thesis by (simp add: frontendInv_def syncRefEffect_def)
next
  case ProcessQueue
  with assms show ?thesis
    by (auto simp: frontendInv_def processQueueEffect_def split: option.splits list.splits)
next
  case (AnswerOrSkip b)
  with assms show ?thesis by (simp add: frontendInv_def handleCaptchaAnswer_def)
qed

lemma frontendInv_run: "frontendInv (frontendRun events)"
proof (induction events rule: rev_induct)
  case Nil
  show ?case by (simp add: frontendRun_def frontendInit_def frontendInv_def)
next
  case (snoc e events)
  then show ?case using frontendInv_step [of "frontendRun events" e]
    by (simp add: frontendRun_def)
qed

lemma distinct_map_filter_le1:
  "distinct (map f xs) \<Longrightarrow> length (filter (\<lambda>c. f c = t) xs) \<le> 1"
  by (induction xs) (auto simp: filter_empty_conv image_iff)

lemmas frontend_eval =
  frontendRun_def frontendInit_def onCaptchaMessage_def render_def syncRefEffect_def
  processQueueEffect_def handleCaptchaAnswer_def queuedFor_def

text \<open>
  C10, as stated, fails in its second part: the handler compares the arriving challenge
  with the ref, and the ref takes the displayed challenge only when the effect of the
  render runs. After a challenge of thread 1 has arrived, has been taken from the queue and
  is on display, and before that effect has run, a new challenge of thread 1 does not
  replace the displayed one but is queued.
\<close>

theorem frontend_displayed_not_replaced_counterexample:
  "renderedCaptcha (frontendRun [CaptchaArrives \<lparr>itemImage = ''a'', itemThreadId = 1, itemTimestamp = 10\<rparr>, Render, ProcessQueue, Render]) = Some \<lparr>itemImage = ''a'', itemThreadId = 1, itemTimestamp = 10\<rparr> \<and>
   itemThreadId \<lparr>itemImage = ''a'', itemThreadId = 1, itemTimestamp = 10\<rparr> = itemThreadId \<lparr>itemImage = ''b'', itemThreadId = 1, itemTimestamp = 20\<rparr> \<and>
   currentCaptcha (onCaptchaMessage \<lparr>itemImage = ''b'', itemThreadId = 1, itemTimestamp = 20\<rparr>
     (frontendRun [CaptchaArrives \<lparr>itemImage = ''a'', itemThreadId = 1, itemTimestamp = 10\<rparr>, Render, ProcessQueue, Render])) = Some \<lparr>itemImage = ''a'', itemThreadId = 1, itemTimestamp = 10\<rparr> \<and>
   pendingCaptchas (onCaptchaMessage \<lparr>itemImage = ''b'', itemThreadId = 1, itemTimestamp = 20\<rparr>
     (frontendRun [CaptchaArrives \<lparr>itemImage = ''a'', itemThreadId = 1, itemTimestamp = 10\<rparr>, Render, ProcessQueue, Render])) = [\<lparr>itemImage = ''b'', itemThreadId = 1, itemTimestamp = 20\<rparr>]"
  by (simp add: frontend_eval)

text \<open>
  C10, amended: after any sequence of frontend events the pending queue holds at most one
  challenge of each thread. A challenge arriving for the thread that the ref records, which
  is the displayed thread once the effect of the render has copied it into the ref,
  replaces the current challenge and leaves the queue alone; any other arriving challenge
  leaves the current one alone, removes the thread's queued entry and is appended.
\<close>

theorem frontend_queue_one_per_thread:
  "length (queuedFor t (frontendRun events)) \<le> 1 \<and>
   (currentCaptchaRef u = Some a \<and> itemThreadId a = itemThreadId c \<longrightarrow>
      currentCaptcha (onCaptchaMessage c u) = Some c \<and>
      pendingCaptchas (onCaptchaMessage c u) = pendingCaptchas u) \<and>
   (\<not> (\<exists>a. currentCaptchaRef u = Some a \<and> itemThreadId a = itemThreadId c) \<longrightarrow>
      currentCaptcha (onCaptchaMessage c u) = currentCaptcha u \<and>
      pendingCaptchas (onCaptchaMessage c u) =
        filter (\<lambda>q. itemThreadId q \<noteq> itemThreadId c) (pendingCaptchas u) @ [c] \<and>
      queuedFor (itemThreadId c) (onCaptchaMessage c u) = [c]) \<and>
   currentCaptchaRef (syncRefEffect u) = renderedCaptcha u \<and>
   (renderedCaptcha u = Some a \<and> itemThreadId a = itemThreadId c \<longrightarrow>
      currentCaptcha (onCaptchaMessage c (syncRefEffect u)) = Some c \<and>
      pendingCaptchas (onCaptchaMessage c (syncRefEffect u)) = pendingCaptchas u)"
proof -
  have one: "length (queuedFor t (frontendRun events)) \<le> 1"
    unfolding queuedFor_def
    using frontendInv_run [of events]
      distinct_map_filter_le1 [of itemThreadId "pendingCaptchas (frontendRun events)" t]
    by (simp add: frontendInv_def)
  have same: "currentCaptchaRef u = Some a \<and> itemThreadId a = itemThreadId c \<longrightarrow>
      currentCaptcha (onCaptchaMessage c u) = Some c \<and>
      pendingCaptchas (onCaptchaMessage c u) = pendingCaptchas u"
    by (simp add: onCaptchaMessage_def)
  have other: "\<not> (\<exists>a. currentCaptchaRef u = Some a \<and> itemThreadId a = itemThreadId c) \<longrightarrow>
      currentCaptcha (onCaptchaMessage c u) = currentCaptcha u \<and>
      pendingCaptchas (onCaptchaMessage c u) =
        filter (\<lambda>q. itemThreadId q \<noteq> itemThreadId c) (pendingCaptchas u) @ [c] \<and>
      queuedFor (itemThreadId c) (onCaptchaMessage c u) = [c]"
    by (auto simp: onCaptchaMessage_def queuedFor_def filter_empty_conv split: option.splits)
  have sync: "currentCaptchaRef (syncRefEffect u) = renderedCaptcha u"
    by (simp add: syncRefEffect_def)
  have shown: "renderedCaptcha u = Some a \<and> itemThreadId a = itemThreadId c \<longrightarrow>
      currentCaptcha (onCaptchaMessage c (syncRefEffect u)) = Some c \<and>
      pendingCaptchas (onCaptchaMessage c (syncRefEffect u)) = pendingCaptchas u"
    by (simp add: onCaptchaMessage_def syncRefEffect_def)
  from one same other sync shown show ?thesis by blast
qed

theorem frontend_queue_one_per_thread_witness:
  "pendingCaptchas (frontendRun [CaptchaArrives \<lparr>itemImage = ''a'', itemThreadId = 1, itemTimestamp = 10\<rparr>, CaptchaArrives \<lparr>itemImage = ''b'', itemThreadId = 1, itemTimestamp = 20\<rparr>, CaptchaArrives \<lparr>itemImage = ''c'', itemThreadId = 2, itemTimestamp = 30\<rparr>])
     = [\<lparr>itemImage = ''b'', itemThreadId = 1, itemTimestamp = 20\<rparr>, \<lparr>itemImage = ''c'', itemThreadId = 2, itemTimestamp = 30\<rparr>] \<and>
   length (queuedFor 1 (frontendRun [CaptchaArrives \<lparr>itemImage = ''a'', itemThreadId = 1, itemTimestamp = 10\<rparr>, CaptchaArrives \<lparr>itemImage = ''b'', itemThreadId = 1, itemTimestamp = 20\<rparr>, CaptchaArrives \<lparr>itemImage = ''c'', itemThreadId = 2, itemTimestamp = 30\<rparr>]))
     \<le> 1 \<and>
   currentCaptchaRef (frontendRun [CaptchaArrives \<lparr>itemImage = ''a'', itemThreadId = 1, itemTimestamp = 10\<rparr>, CaptchaArrives \<lparr>itemImage = ''b'', itemThreadId = 1, itemTimestamp = 20\<rparr>, CaptchaArrives \<lparr>itemImage = ''c'', itemThreadId = 2, itemTimestamp = 30\<rparr>, Render, ProcessQueue, Render, SyncRef]) = Some \<lparr>itemImage = ''b'', itemThreadId = 1, itemTimestamp = 20\<rparr> \<and>
   renderedCaptcha (frontendRun [CaptchaArrives \<lparr>itemImage = ''a'', itemThreadId = 1, itemTimestamp = 10\<rparr>, CaptchaArrives \<lparr>itemImage = ''b'', itemThreadId = 1, itemTimestamp = 20\<rparr>, CaptchaArrives \<lparr>itemImage = ''c'', itemThreadId = 2, itemTimestamp = 30\<rparr>, Render, ProcessQueue, Render, SyncRef]) = Some \<lparr>itemImage = ''b'', itemThreadId = 1, itemTimestamp = 20\<rparr> \<and>
   itemThreadId \<lparr>itemImage = ''b'', itemThreadId = 1, itemTimestamp = 20\<rparr> = itemThreadId \<lparr>itemImage = ''a'', itemThreadId = 1, itemTimestamp = 10\<rparr> \<and>
   currentCaptcha (onCaptchaMessage \<lparr>itemImage = ''a'', itemThreadId = 1, itemTimestamp = 10\<rparr> (frontendRun [CaptchaArrives \<lparr>itemImage = ''a'', itemThreadId = 1, itemTimestamp = 10\<rparr>, CaptchaArrives \<lparr>itemImage = ''b'', itemThreadId = 1, itemTimestamp = 20\<rparr>, CaptchaArrives \<lparr>itemImage = ''c'', itemThreadId = 2, itemTimestamp = 30\<rparr>, Render, ProcessQueue, Render, SyncRef])) = Some \<lparr>itemImage = ''a'', itemThreadId = 1, itemTimestamp = 10\<rparr> \<and>
   pendingCaptchas (onCaptchaMessage \<lparr>itemImage = ''a'', itemThreadId = 1, itemTimestamp = 10\<rparr> (frontendRun [CaptchaArrives \<lparr>itemImage = ''a'', itemThreadId = 1, itemTimestamp = 10\<rparr>, CaptchaArrives \<lparr>itemImage = ''b'', itemThreadId = 1, itemTimestamp = 20\<rparr>, CaptchaArrives \<lparr>itemImage = ''c'', itemThreadId = 2, itemTimestamp = 30\<rparr>, Render, ProcessQueue, Render, SyncRef])) = [\<lparr>itemImage = ''c'', itemThreadId = 2, itemTimestamp = 30\<rparr>] \<and>
   currentCaptcha (onCaptchaMessage \<lparr>itemImage = ''a'', itemThreadId = 1, itemTimestamp = 10\<rparr> (syncRefEffect (frontendRun [CaptchaArrives \<lparr>itemImage = ''a'', itemThreadId = 1, itemTimestamp = 10\<rparr>, CaptchaArrives \<lparr>itemImage = ''b'', itemThreadId = 1, itemTimestamp = 20\<rparr>, CaptchaArrives \<lparr>itemImage = ''c'', itemThreadId = 2, itemTimestamp = 30\<rparr>, Render, ProcessQueue, Render, SyncRef]))) = Some \<lparr>itemImage = ''a'', itemThreadId = 1, itemTimestamp = 10\<rparr> \<and>
   \<not> (\<exists>a. currentCaptchaRef (frontendRun [CaptchaArrives \<lparr>itemImage = ''a'', itemThreadId = 1, itemTimestamp = 10\<rparr>, CaptchaArrives \<lparr>itemImage = ''b'', itemThreadId = 1, itemTimestamp = 20\<rparr>, CaptchaArrives \<lparr>itemImage = ''c'', itemThreadId = 2, itemTimestamp = 30\<rparr>, Render, ProcessQueue, Render, SyncRef]) = Some a \<and> itemThreadId a = itemThreadId \<lparr>itemImage = ''d'', itemThreadId = 2, itemTimestamp = 40\<rparr>) \<and>
   pendingCaptchas (onCaptchaMessage \<lparr>itemImage = ''d'', itemThreadId = 2, itemTimestamp = 40\<rparr> (frontendRun [CaptchaArrives \<lparr>itemImage = ''a'', itemThreadId = 1, itemTimestamp = 10\<rparr>, CaptchaArrives \<lparr>itemImage = ''b'', itemThreadId = 1, itemTimestamp = 20\<rparr>, CaptchaArrives \<lparr>itemImage = ''c'', itemThreadId = 2, itemTimestamp = 30\<rparr>, Render, ProcessQueue, Render, SyncRef])) = [\<lparr>itemImage = ''d'', itemThreadId = 2, itemTimestamp = 40\<rparr>] \<and>
   currentCaptcha (onCaptchaMessage \<lparr>itemImage = ''d'', itemThreadId = 2, itemTimestamp = 40\<rparr> (frontendRun [CaptchaArrives \<lparr>itemImage = ''a'', itemThreadId = 1, itemTimestamp = 10\<rparr>, CaptchaArrives \<lparr>itemImage = ''b'', itemThreadId = 1, itemTimestamp = 20\<rparr>, CaptchaArrives \<lparr>itemImage = ''c'', itemThreadId = 2, itemTimestamp = 30\<rparr>, Render, ProcessQueue, Render, SyncRef])) = Some \<lparr>itemImage = ''b'', itemThreadId = 1, itemTimestamp = 20\<rparr>"
  using frontend_queue_one_per_thread
      [of 1 "[CaptchaArrives \<lparr>itemImage = ''a'', itemThreadId = 1, itemTimestamp = 10\<rparr>, CaptchaArrives \<lparr>itemImage = ''b'', itemThreadId = 1, itemTimestamp = 20\<rparr>, CaptchaArrives \<lparr>itemImage = ''c'', itemThreadId = 2, itemTimestamp = 30\<rparr>]" "frontendRun [CaptchaArrives \<lparr>itemImage = ''a'', itemThreadId = 1, itemTimestamp = 10\<rparr>, CaptchaArrives \<lparr>itemImage = ''b'', itemThreadId = 1, itemTimestamp = 20\<rparr>, CaptchaArrives \<lparr>itemImage = ''c'', itemThreadId = 2, itemTimestamp = 30\<rparr>, Render, ProcessQueue, Render, SyncRef]" "\<lparr>itemImage = ''b'', itemThreadId = 1, itemTimestamp = 20\<rparr>" "\<lparr>itemImage = ''a'', itemThreadId = 1, itemTimestamp = 10\<rparr>"]
    frontend_queue_one_per_thread [of 1 "[]" "frontendRun [CaptchaArrives \<lparr>itemImage = ''a'', itemThreadId = 1, itemTimestamp = 10\<rparr>, CaptchaArrives \<lparr>itemImage = ''b'', itemThreadId = 1, itemTimestamp = 20\<rparr>, CaptchaArrives \<lparr>itemImage = ''c'', itemThreadId = 2, itemTimestamp = 30\<rparr>, Render, ProcessQueue, Render, SyncRef]" "\<lparr>itemImage = ''b'', itemThreadId = 1, itemTimestamp = 20\<rparr>" "\<lparr>itemImage = ''d'', itemThreadId = 2, itemTimestamp = 40\<rparr>"]
  by (simp add: frontend_eval)

subsection \<open>Email queue\<close>

declare maintainEmailQueue.simps [simp del]

lemma prefetchInv_maintain: "prefetchInv s \<Longrightarrow> prefetchInv (maintainEmailQueue s)"
proof (induction s rule: maintainEmailQueue.induct)
  case (1 s)
  show ?case
  proof (cases "length (emailQueue s) < EMAIL_QUEUE_SIZE")
    case True
    let ?s' = "(snd (generateEmailInternal Queue_source s))
        \<lparr>emailQueue := emailQueue s @ [length (fetchLog s)]\<rparr>"
    have inv': "prefetchInv ?s'"
      using "1.prems" True by (simp add: prefetchInv_def generateEmailInternal_def)
    have "prefetchInv (maintainEmailQueue ?s')"
      using "1.IH" [OF True, of "(length (fetchLog s), snd (generateEmailInternal Queue_source s))"
          "length (fetchLog s)" "snd (generateEmailInternal Queue_source s)"] inv'
      by (simp add: generateEmailInternal_def)
    moreover have "maintainEmailQueue s = maintainEmailQueue ?s'"
      using True by (subst maintainEmailQueue.simps) (simp add: generateEmailInternal_def)
    ultimately show ?thesis by simp
  next
    case False
    then show ?thesis using "1.prems" by (subst maintainEmailQueue.simps) simp
  qed
qed

lemma length_maintainEmailQueue:
  "length (emailQueue (maintainEmailQueue s)) = max EMAIL_QUEUE_SIZE (length (emailQueue s))"
proof (induction s rule: maintainEmailQueue.induct)
  case (1 s)
  show ?case
  proof (cases "length (emailQueue s) < EMAIL_QUEUE_SIZE")
    case True
    let ?s' = "(snd (generateEmailInternal Queue_source s))
        \<lparr>emailQueue := emailQueue s @ [length (fetchLog s)]\<rparr>"
    have "length (emailQueue (maintainEmailQueue ?s')) =
        max EMAIL_QUEUE_SIZE (length (emailQueue ?s'))"
      using "1.IH" [OF True, of "(length (fetchLog s), snd (generateEmailInternal Queue_source s))"
          "length (fetchLog s)" "snd (generateEmailInternal Queue_source s)"] 
      by (simp add: generateEmailInternal_def)
    moreover have "maintainEmailQueue s = maintainEmailQueue ?s'"
      using True by (subst maintainEmailQueue.simps) (simp add: generateEmailInternal_def)
    ultimately show ?thesis using True by simp
  next
    case False
    then show ?thesis by (subst maintainEmailQueue.simps) simp
  qed
qed

lemma prefetchInv_take: "prefetchInv s \<Longrightarrow> prefetchInv (snd (getEmailFromQueue t s))"
  using prefetchInv_maintain [of s]
  by (auto simp: getEmailFromQueue_def shiftOrFetch_def prefetchInv_def generateEmailInternal_def
      split: list.splits prod.splits)

lemma prefetchInv_step: "prefetchInv s \<Longrightarrow> prefetchInv (prefetchStep s e)"
  by (cases e) (simp_all add: prefetchInv_maintain prefetchInv_take,
      simp add: prefetchInv_def fetchCompletes_def)

lemma prefetchInv_run: "prefetchInv (prefetchRun events)"
proof (induction events rule: rev_induct)
  case Nil
  show ?case by (simp add: prefetchRun_def prefetchInv_def prefetchInit_def)
next
  case (snoc e events)
  then show ?case by (simp add: prefetchRun_def prefetchInv_step)
qed

lemmas prefetch_eval =
  prefetchRun_def prefetchInit_def getEmailFromQueue_def shiftOrFetch_def
  maintainEmailQueue.simps generateEmailInternal_def fetchCompletes_def EMAIL_QUEUE_SIZE_def

lemma prefetch_run_example:
  "prefetchRun [Maintain, Take 1, Take 2] =
     \<lparr>emailQueue = [2, 3, 4, 5, 6, 7, 8, 9, 10],
      fetchLog = replicate 11 Queue_source,
      inFlight = [0, 1, 2, 3, 4, 5, 6, 7, 8, 9, 10],
      takenLog = [0, 1]\<rparr>"
  by (simp add: prefetch_eval numeral_eq_Suc)

text \<open>
  C8, as stated, fails in its last part: the maintenance loop looks at the length of the
  queue only, and a promise that a caller has taken is no longer in the queue although its
  fetch may still be running. After the initial fill and two takes, with no fetch completed
  yet, eleven fetches are in flight.
\<close>

theorem prefetch_in_flight_counterexample:
  "\<not> length (inFlight (prefetchRun [Maintain, Take 1, Take 2])) \<le> EMAIL_QUEUE_SIZE"
  unfolding prefetch_run_example by (simp add: EMAIL_QUEUE_SIZE_def)

text \<open>
  C8, amended: promises are handed out in the order in which their fetches were started
  (the taken promises followed by the queued ones are the fetches in start order), a take
  returns the head of the queue, and on an empty queue the take expression starts a fetch
  for the caller. The maintenance loop fills the queue up to the target size 10 and the
  number of queued promises never exceeds 10; the fetches of promises already taken are not
  counted.
\<close>

theorem prefetch_fifo_queue_bounded:
  "takenLog (prefetchRun events) @ emailQueue (prefetchRun events) =
     [0..<length (fetchLog (prefetchRun events))] \<and>
   length (emailQueue (prefetchRun events)) \<le> EMAIL_QUEUE_SIZE \<and>
   EMAIL_QUEUE_SIZE = 10 \<and>
   length (emailQueue (maintainEmailQueue s)) = max EMAIL_QUEUE_SIZE (length (emailQueue s)) \<and>
   (emailQueue s = p # rest \<longrightarrow>
      fst (shiftOrFetch t s) = p \<and> emailQueue (snd (shiftOrFetch t s)) = rest \<and>
      fetchLog (snd (shiftOrFetch t s)) = fetchLog s) \<and>
   (emailQueue s = [] \<longrightarrow>
      fst (shiftOrFetch t s) = length (fetchLog s) \<and>
      fetchLog (snd (shiftOrFetch t s)) = fetchLog s @ [Thread_source t] \<and>
      emailQueue (snd (shiftOrFetch t s)) = [])"
proof -
  have inv: "prefetchInv (prefetchRun events)" by (rule prefetchInv_run)
  have a: "takenLog (prefetchRun events) @ emailQueue (prefetchRun events) =
     [0..<length (fetchLog (prefetchRun events))]"
    and b: "length (emailQueue (prefetchRun events)) \<le> EMAIL_QUEUE_SIZE"
    using inv by (simp_all add: prefetchInv_def)
  have c: "EMAIL_QUEUE_SIZE = 10" by (simp add: EMAIL_QUEUE_SIZE_def)
  have d: "length (emailQueue (maintainEmailQueue s)) =
      max EMAIL_QUEUE_SIZE (length (emailQueue s))"
    by (rule length_maintainEmailQueue)
  have e: "emailQueue s = p # rest \<longrightarrow>
      fst (shiftOrFetch t s) = p \<and> emailQueue (snd (shiftOrFetch t s)) = rest \<and>
      fetchLog (snd (shiftOrFetch t s)) = fetchLog s"
    by (simp add: shiftOrFetch_def)
  have f: "emailQueue s = [] \<longrightarrow>
      fst (shiftOrFetch t s) = length (fetchLog s) \<and>
      fetchLog (snd (shiftOrFetch t s)) = fetchLog s @ [Thread_source t] \<and>
      emailQueue (snd (shiftOrFetch t s)) = []"
    by (simp add: shiftOrFetch_def generateEmailInternal_def)
  from a b c d e f show ?thesis by blast
qed

theorem prefetch_fifo_queue_bounded_witness:
  "emailQueue (prefetchRun [Maintain, Take 1, Take 2]) = [2, 3, 4, 5, 6, 7, 8, 9] @ [10] \<and>
   takenLog (prefetchRun [Maintain, Take 1, Take 2]) = [0, 1] \<and>
   fst (shiftOrFetch 3 (prefetchRun [Maintain, Take 1, Take 2])) = 2 \<and>
   emailQueue prefetchInit = [] \<and>
   fst (shiftOrFetch 3 prefetchInit) = 0 \<and>
   fetchLog (snd (shiftOrFetch 3 prefetchInit)) = [Thread_source 3]"
proof -
  have q: "emailQueue (prefetchRun [Maintain, Take 1, Take 2]) =
      [2, 3, 4, 5, 6, 7, 8, 9, 10]"
    and t: "takenLog (prefetchRun [Maintain, Take 1, Take 2]) = [0, 1]"
    unfolding prefetch_run_example by simp_all
  have i: "emailQueue prefetchInit = []" by (simp add: prefetchInit_def)
  from prefetch_fifo_queue_bounded
      [of "[Maintain, Take 1, Take 2]" "prefetchRun [Maintain, Take 1, Take 2]" 2
        "[3, 4, 5, 6, 7, 8, 9, 10]" 3]
    prefetch_fifo_queue_bounded [of "[]" prefetchInit 2 "[]" 3]
    q t i
  show ?thesis by (simp add: prefetchInit_def)
qed

subsection \<open>Captcha rounds\<close>

declare clickLoop.simps [simp del] captchaRounds.simps [simp del]




























lemmas scenario_eval =
  quietPage_def taskWith_def noHeuristicFires_def frameReadable_def nothingThrows_def
  aiSolverAnswers_def noSkipArrives_def noSkipFor_def solveWithGemini_def
  noRetryScreenshotPage_def silentSolverPage_def noFirstScreenshotPage_def throwingPage_def


lemmas solve_eval =
  processAccountFromTurn_def captchaStage_def captchaBlock_def solveCaptchaManually_def
  captchaRounds.simps solveRound_def afterLoop_def clickLoop.simps obtainCandidate_def
  retakeAfterAiFailure_def tryClick_def deliver_def maxClickAttempts_def maxCaptchaRounds_def
  afterCaptcha_def finalizing_def finalInvitationStatus_def dialogFlags_def
  gridCoordinates_def holding_def waitForCaptchaTurn_def releaseCaptchaLock_def
  processCaptchaQueue_def backendInit_def




subsection \<open>A skip without a registered resolver\<close>

text \<open>
  C9, as stated, fails in its second part: a skip for a thread identity without a
  registered resolver is not a no-op. It sets the skip flag of that thread, and the flag
  decides the outcome of the thread's next attempt. Thread 1 holds the turn and has not yet
  asked for an answer; on the quiet page its task fails after six attempts, and after a
  skip message for thread 1 the same task is skipped.
\<close>

theorem skip_without_resolver_counterexample:
  "mapGet (captchaResolvers holding) 1 = None \<and>
   msgType (skipFor 1) = Skip_captcha \<and> msgThreadId (skipFor 1) = Some 1 \<and>
   onMessage (skipFor 1) holding \<noteq> holding \<and>
   skipCaptchaFlags holding = {} \<and>
   skipCaptchaFlags (onMessage (skipFor 1) holding) = {1} \<and>
   outcomeOf (fst (processAccountFromTurn (taskWith quietPage) 1 holding)) = Failed \<and>
   outcomeOf (fst (processAccountFromTurn (taskWith quietPage) 1
     (onMessage (skipFor 1) holding))) = Skipped"
proof -
  have flags: "skipCaptchaFlags holding = {}"
    "skipCaptchaFlags (onMessage (skipFor 1) holding) = {1}"
    "mapGet (captchaResolvers holding) 1 = None"
    "msgType (skipFor 1) = Skip_captcha" "msgThreadId (skipFor 1) = Some 1"
    by (simp_all add: onMessage_def skipFor_def mapGet_def holding_def waitForCaptchaTurn_def
        processCaptchaQueue_def backendInit_def)
  from flags(1,2) have differ: "onMessage (skipFor 1) holding \<noteq> holding" by auto
  have plain: "fst (processAccountFromTurn (taskWith quietPage) 1 holding) =
      errorResult ''Failed to trigger/solve captcha'' 1"
    by (simp add: solve_eval scenario_eval)
  have skipped: "fst (processAccountFromTurn (taskWith quietPage) 1
      (onMessage (skipFor 1) holding)) = skippedResult 1"
    by (simp add: solve_eval scenario_eval onMessage_def skipFor_def mapGet_def)
  show ?thesis unfolding plain skipped using flags differ
    by (simp add: outcomeOf_def errorResult_def skippedResult_def)
qed

subsection \<open>Finalizing\<close>

text \<open>
  C7: whichever of the three values the invitation status ends with, the result reports
  success: an "already invited" acknowledgment, a success acknowledgment, and the unknown
  status that remains when neither an alert nor the page text says anything. An alert that
  acknowledges decides the status without the page being read. After the captcha stage
  the task runs into this decision whenever the verification code arrived and the form
  steps did not throw.
\<close>

theorem finalizing_counts_unknown_as_success:
  "(finalInvitationStatus T = Some Already_invited \<longrightarrow>
      finalizing T t = successResult T t \<and> outcomeOf (finalizing T t) = Succeeded) \<and>
   (finalInvitationStatus T = Some Invitation_success \<longrightarrow>
      finalizing T t = successResult T t \<and> outcomeOf (finalizing T t) = Succeeded) \<and>
   (finalInvitationStatus T = Some Status_unknown \<longrightarrow>
      finalizing T t = successResult T t \<and> outcomeOf (finalizing T t) = Succeeded) \<and>
   (dialogs T = ds @ [d] \<and> saysAlreadyInvited d \<longrightarrow>
      finalInvitationStatus T = Some Already_invited) \<and>
   (dialogs T = ds @ [d] \<and> \<not> saysAlreadyInvited d \<and> saysAccepted d \<longrightarrow>
      finalInvitationStatus T = Some Invitation_success) \<and>
   (dialogs T = [] \<longrightarrow> finalInvitationStatus T = bodyStatus T) \<and>
   (verificationCode T = Some code \<and> formError T = None \<longrightarrow>
      afterCaptcha T t = finalizing T t)"
  by (simp add: finalizing_def outcomeOf_def successResult_def finalInvitationStatus_def
      dialogFlags_def onDialog_def afterCaptcha_def Let_def)

theorem finalizing_counts_unknown_as_success_witness:
  "finalInvitationStatus (taskWith quietPage) = Some Status_unknown \<and>
   outcomeOf (finalizing (taskWith quietPage) 1) = Succeeded \<and>
   finalInvitationStatus ((taskWith quietPage)\<lparr>dialogs := [] @ [\<lparr>mentionsFlame = False, saysAlreadyInvited = True, saysAccepted = False\<rparr>]\<rparr>) = Some Already_invited \<and>
   outcomeOf (finalizing ((taskWith quietPage)\<lparr>dialogs := [] @ [\<lparr>mentionsFlame = False, saysAlreadyInvited = True, saysAccepted = False\<rparr>]\<rparr>) 1) = Succeeded \<and>
   finalInvitationStatus ((taskWith quietPage)\<lparr>dialogs := [\<lparr>mentionsFlame = False, saysAlreadyInvited = True, saysAccepted = False\<rparr>] @ [\<lparr>mentionsFlame = True, saysAlreadyInvited = False, saysAccepted = True\<rparr>]\<rparr>)
     = Some Invitation_success \<and>
   outcomeOf (finalizing ((taskWith quietPage)\<lparr>dialogs := [\<lparr>mentionsFlame = False, saysAlreadyInvited = True, saysAccepted = False\<rparr>] @ [\<lparr>mentionsFlame = True, saysAlreadyInvited = False, saysAccepted = True\<rparr>]\<rparr>) 1) = Succeeded \<and>
   verificationCode (taskWith quietPage) = Some ''123456'' \<and>
   formError (taskWith quietPage) = None \<and>
   outcomeOf (afterCaptcha (taskWith quietPage) 1) = Succeeded"
  using finalizing_counts_unknown_as_success
      [of "taskWith quietPage" 1 "[]" "\<lparr>mentionsFlame = False, saysAlreadyInvited = True, saysAccepted = False\<rparr>" "''123456''"]
    finalizing_counts_unknown_as_success
      [of "(taskWith quietPage)\<lparr>dialogs := [] @ [\<lparr>mentionsFlame = False, saysAlreadyInvited = True, saysAccepted = False\<rparr>]\<rparr>" 1 "[]" "\<lparr>mentionsFlame = False, saysAlreadyInvited = True, saysAccepted = False\<rparr>" "''123456''"]
    finalizing_counts_unknown_as_success
      [of "(taskWith quietPage)\<lparr>dialogs := [\<lparr>mentionsFlame = False, saysAlreadyInvited = True, saysAccepted = False\<rparr>] @ [\<lparr>mentionsFlame = True, saysAlreadyInvited = False, saysAccepted = True\<rparr>]\<rparr>" 1 "[\<lparr>mentionsFlame = False, saysAlreadyInvited = True, saysAccepted = False\<rparr>]" "\<lparr>mentionsFlame = True, saysAlreadyInvited = False, saysAccepted = True\<rparr>" "''123456''"]
  by (simp add: taskWith_def outcomeOf_def successResult_def)

subsection \<open>Batch loop\<close>

text \<open>
  The loop keeps the successes within the target and at least one thread, so each batch
  makes progress: whenever the request allows at least one thread, the run ends, no more
  than the target succeed, the loop condition is false at the end, and the attempts stay
  below nine times the target. A request that allows no thread never ends.
\<close>

declare batchLoop.simps [simp del]

lemma length_batchThreadIds: "length (batchThreadIds n b) = nat b"
  by (simp add: batchThreadIds_def)

lemma calculateOptimalBatchSize_ge1:
  "1 \<le> cur \<Longrightarrow> 1 \<le> mx \<Longrightarrow> 1 \<le> calculateOptimalBatchSize rate cur mx"
  unfolding calculateOptimalBatchSize_def by (cases "rate > 0.75"; cases "rate < 0.35") simp_all

lemma nextThreads_ge1:
  "1 \<le> cur \<Longrightarrow> 1 \<le> mx \<Longrightarrow> 1 \<le> nextThreads rs cur mx"
  unfolding nextThreads_def by (simp add: calculateOptimalBatchSize_ge1)

lemma runBatch_inv:
  assumes "batchInv n st" "1 \<le> mx"
  shows "batchInv n (runBatch attempt n mx st)"
proof -
  let ?b = "min (currentThreads st) (n - successfulCount st)"
  let ?rs = "map attempt (batchThreadIds (totalAttempts st) ?b)"
  have "length (filter success ?rs) \<le> length ?rs" by (rule length_filter_le)
  also have "length ?rs = nat ?b" by (simp only: length_map length_batchThreadIds)
  finally have "length (filter success ?rs) \<le> nat ?b" .
  then have "int (length (filter success ?rs)) \<le> int (nat ?b)" by (simp only: of_nat_le_iff)
  moreover have "int (nat ?b) \<le> n - successfulCount st"
    using assms(1) by (simp add: batchInv_def)
  ultimately have le: "int (length (filter success ?rs)) \<le> n - successfulCount st"
    by (rule order_trans)
  have th: "1 \<le> nextThreads ?rs (currentThreads st) mx"
    using assms by (intro nextThreads_ge1) (simp_all add: batchInv_def)
  have s: "successfulCount (runBatch attempt n mx st) =
      successfulCount st + int (length (filter success ?rs))"
    and c: "currentThreads (runBatch attempt n mx st) = nextThreads ?rs (currentThreads st) mx"
    by (simp_all add: runBatch_def Let_def)
  show ?thesis unfolding batchInv_def s c using le th assms(1) by (simp add: batchInv_def)
qed

lemma runBatch_progress:
  assumes "batchInv n st" "successfulCount st < n"
  shows "totalAttempts st < totalAttempts (runBatch attempt n mx st)"
    and "totalAttempts (runBatch attempt n mx st) \<le> totalAttempts st + (n - successfulCount st)"
  using assms by (simp_all add: batchInv_def runBatch_def Let_def length_batchThreadIds)

lemma batchLoop_terminates:
  assumes "batchInv n st" "1 \<le> mx" "nat (n * 8 - totalAttempts st) \<le> fuel"
  shows "\<exists>st'. batchLoop fuel attempt n mx st = Some st'"
  using assms
proof (induction fuel arbitrary: st)
  case 0
  then show ?case by (subst batchLoop.simps) simp
next
  case (Suc fuel)
  show ?case
  proof (cases "successfulCount st < n \<and> totalAttempts st < n * 8")
    case False
    then show ?thesis by (subst batchLoop.simps) auto
  next
    case True
    let ?st = "runBatch attempt n mx st"
    have i: "batchInv n ?st" using Suc.prems(1,2) by (rule runBatch_inv)
    have "totalAttempts st < totalAttempts ?st"
      using runBatch_progress(1) [OF Suc.prems(1)] True by simp
    then have f: "nat (n * 8 - totalAttempts ?st) \<le> fuel" using Suc.prems(3) True by simp
    from Suc.IH [OF i Suc.prems(2) f] True show ?thesis
      by (subst batchLoop.simps) simp
  qed
qed

lemma batchLoop_final:
  assumes "batchLoop fuel attempt n mx st = Some st'" "batchInv n st" "1 \<le> mx"
    "totalAttempts st < n * 9 \<or> \<not> (successfulCount st < n \<and> totalAttempts st < n * 8)"
  shows "successfulCount st' \<le> n \<and>
         \<not> (successfulCount st' < n \<and> totalAttempts st' < n * 8) \<and>
         (totalAttempts st' < n * 9 \<or> st' = st)"
  using assms
proof (induction fuel arbitrary: st)
  case 0
  then show ?case
    by (subst (asm) batchLoop.simps) (auto simp: batchInv_def split: if_splits)
next
  case (Suc fuel)
  show ?case
  proof (cases "successfulCount st < n \<and> totalAttempts st < n * 8")
    case False
    with Suc.prems show ?thesis
      by (subst (asm) batchLoop.simps) (auto simp: batchInv_def)
  next
    case True
    let ?st = "runBatch attempt n mx st"
    have run: "batchLoop fuel attempt n mx ?st = Some st'"
      using Suc.prems(1) True by (subst (asm) batchLoop.simps) simp
    have i: "batchInv n ?st" using Suc.prems(2,3) by (rule runBatch_inv)
    have "totalAttempts ?st \<le> totalAttempts st + (n - successfulCount st)"
      using runBatch_progress(2) [OF Suc.prems(2)] True by simp
    moreover have "0 \<le> successfulCount st" using Suc.prems(2) by (simp add: batchInv_def)
    ultimately have b: "totalAttempts ?st < n * 9" using True by simp
    from Suc.IH [OF run i Suc.prems(3)] b have
      "successfulCount st' \<le> n \<and>
         \<not> (successfulCount st' < n \<and> totalAttempts st' < n * 8) \<and>
         (totalAttempts st' < n * 9 \<or> st' = ?st)" by simp
    with b show ?thesis by auto
  qed
qed


lemma runBatch_idle:
  assumes "currentThreads st \<le> 0"
  shows "runBatch attempt n mx st = st"
  using assms by (simp add: runBatch_def Let_def batchThreadIds_def nextThreads_def)

lemma batchLoop_never_ends:
  assumes "currentThreads st \<le> 0" "successfulCount st < n" "totalAttempts st < n * 8"
  shows "batchLoop fuel attempt n mx st = None"
  using assms
  by (induction fuel) (subst batchLoop.simps, simp add: runBatch_idle)+

lemma apiGenerate_ends:
  assumes "1 \<le> maxThreads" "0 \<le> n" "nat (n * 8) \<le> fuel"
  shows "\<exists>sm. apiGenerate fuel attempt n maxThreads = Some sm \<and>
           actualSuccessful sm \<le> n \<and>
           \<not> (actualSuccessful sm < n \<and> summaryTotalAttempts sm < n * 8) \<and>
           summaryTotalAttempts sm \<le> n * 9"
proof -
  let ?mx = "min maxThreads MAX_THREADS"
  let ?st = "\<lparr>results = [], successfulCount = 0, totalAttempts = 0,
      currentThreads = min 3 ?mx\<rparr>"
  have mx: "1 \<le> ?mx" using assms(1) by (simp add: MAX_THREADS_def)
  have inv: "batchInv n ?st" using assms(2) mx by (simp add: batchInv_def)
  obtain st' where run: "batchLoop fuel attempt n ?mx ?st = Some st'"
    using batchLoop_terminates [OF inv mx, of fuel attempt] assms(3) by auto
  have "totalAttempts ?st < n * 9 \<or>
      \<not> (successfulCount ?st < n \<and> totalAttempts ?st < n * 8)"
    using assms(2) by (cases "0 < n") simp_all
  from batchLoop_final [OF run inv mx this]
  have "successfulCount st' \<le> n"
    "\<not> (successfulCount st' < n \<and> totalAttempts st' < n * 8)"
    "totalAttempts st' \<le> n * 9"
    using assms(2) by auto
  then show ?thesis using run by (auto simp: apiGenerate_def summarise_def Let_def)
qed

lemma apiGenerate_no_threads:
  assumes "maxThreads \<le> 0" "0 < n"
  shows "apiGenerate fuel attempt n maxThreads = None"
proof -
  have "min maxThreads MAX_THREADS \<le> 0" using assms(1) by (simp add: MAX_THREADS_def)
  then show ?thesis using assms(2)
    by (simp add: apiGenerate_def Let_def batchLoop_never_ends)
qed

lemmas batch_eval =
  batchLoop.simps apiGenerate_def MAX_THREADS_def runBatch_def batchThreadIds_def nextThreads_def
  calculateOptimalBatchSize_def failedResult_def summarise_def Let_def

text \<open>
  C5 says that a run with target N and ceiling 8 N ends with at most 8 N attempts and at
  most N successes. The code breaks the ceiling. With a target of 3 the ceiling is 24
  attempts. When every
  task fails, the first batch has 3 tasks and the following ones 2 each, so the count of
  attempts is odd from then on; at 23 the loop condition still holds, a batch of 2 is
  dispatched, and the run ends with 25 attempts.
\<close>

theorem scheduler_exceeds_attempt_ceiling:
  "apiGenerate 20 failedResult 3 6 =
     Some \<lparr>targetSuccessful = 3, actualSuccessful = 0, summaryTotalAttempts = 25,
           summarySkipped = 0, summaryFailed = 25\<rparr> \<and>
   (3::int) * 8 = 24"
  by (simp add: batch_eval)

subsection \<open>Skip\<close>
















lemma relayInv_turn:
  "relayInv (waitForCaptchaTurn t s) = relayInv s"
  "relayInv (releaseCaptchaLock t s) = relayInv s"
  by (simp_all add: relayInv_def waitForCaptchaTurn_def releaseCaptchaLock_def
      processCaptchaQueue_def Let_def split: list.splits option.splits)























end
